theory Spec2Isabelle
  imports Complex_Main "HOL-Library.AList"
begin

section \<open>The course-page extraction pipeline of \<^verbatim>\<open>deep_crawl.py\<close>\<close>

text \<open>
  A shallow embedding of \<^verbatim>\<open>DeepCourseCrawler.extract_course_details\<close> and of the
  extractors it calls, of \<^verbatim>\<open>_extract_json_ld\<close> / \<^verbatim>\<open>_parse_schema_item\<close> and of
  \<^verbatim>\<open>_extract_from_tables\<close> / \<^verbatim>\<open>_map_table_value\<close>.

  What the Python code gets from libraries is an input of the model:
  \<^item> the parsed document (\<^verbatim>\<open>BeautifulSoup(html, 'html.parser')\<close>) is a record of the
    answers the code asks it for (record \<open>soup\<close> below);
  \<^item> \<^verbatim>\<open>urlparse(url).path\<close> and the iteration order of a Python \<^verbatim>\<open>set\<close> of strings
    are fields of the record \<open>py_runtime\<close>.
  The regular expressions of the source are translated one by one into a small
  backtracking matcher with the search order of Python's \<^verbatim>\<open>re\<close> module.

  Strings are lists of Isabelle's 8-bit characters, read as the code points U+0000 to
  U+00FF; on these the character classes and the case maps are those of Python. A text
  with a code point beyond U+00FF is outside the model.
\<close>

subsection \<open>Python strings\<close>

definition is_digit :: "char \<Rightarrow> bool" where
  "is_digit c = (c \<in> set ''0123456789'')"

text \<open>\<^verbatim>\<open>\s\<close> and \<^verbatim>\<open>str.strip()\<close>: tab, newline, vertical tab, form feed, carriage
  return, the separators 28 to 31, the space, the next-line control U+0085 and the
  no-break space U+00A0.\<close>

definition is_space :: "char \<Rightarrow> bool" where
  "is_space c = (of_char c \<in> set [9, 10, 11, 12, 13, 28, 29, 30, 31, 32, 133, 160 :: nat])"

text \<open>\<^verbatim>\<open>[A-Za-z]\<close>\<close>

definition is_ascii_letter :: "char \<Rightarrow> bool" where
  "is_ascii_letter c =
     (c \<in> set ''ABCDEFGHIJKLMNOPQRSTUVWXYZabcdefghijklmnopqrstuvwxyz'')"

text \<open>\<^verbatim>\<open>c.isupper()\<close> and \<^verbatim>\<open>c.islower()\<close>: the capitals are A to Z and U+00C0 to U+00DE
  without the multiplication sign; the small letters are a to z, the two ordinal
  indicators, the micro sign, and U+00DF to U+00FF without the division sign.\<close>

definition is_upper :: "char \<Rightarrow> bool" where
  "is_upper c =
     (c \<in> set (''ABCDEFGHIJKLMNOPQRSTUVWXYZ'' @
       [CHR 0xC0, CHR 0xC1, CHR 0xC2, CHR 0xC3, CHR 0xC4, CHR 0xC5, CHR 0xC6, CHR 0xC7,
        CHR 0xC8, CHR 0xC9, CHR 0xCA, CHR 0xCB, CHR 0xCC, CHR 0xCD, CHR 0xCE, CHR 0xCF,
        CHR 0xD0, CHR 0xD1, CHR 0xD2, CHR 0xD3, CHR 0xD4, CHR 0xD5, CHR 0xD6, CHR 0xD8,
        CHR 0xD9, CHR 0xDA, CHR 0xDB, CHR 0xDC, CHR 0xDD, CHR 0xDE]))"

definition is_lower :: "char \<Rightarrow> bool" where
  "is_lower c =
     (c \<in> set (''abcdefghijklmnopqrstuvwxyz'' @
       [CHR 0xAA, CHR 0xB5, CHR 0xBA, CHR 0xDF,
        CHR 0xE0, CHR 0xE1, CHR 0xE2, CHR 0xE3, CHR 0xE4, CHR 0xE5, CHR 0xE6, CHR 0xE7,
        CHR 0xE8, CHR 0xE9, CHR 0xEA, CHR 0xEB, CHR 0xEC, CHR 0xED, CHR 0xEE, CHR 0xEF,
        CHR 0xF0, CHR 0xF1, CHR 0xF2, CHR 0xF3, CHR 0xF4, CHR 0xF5, CHR 0xF6, CHR 0xF8,
        CHR 0xF9, CHR 0xFA, CHR 0xFB, CHR 0xFC, CHR 0xFD, CHR 0xFE, CHR 0xFF]))"

text \<open>\<^verbatim>\<open>\w\<close>: what \<^verbatim>\<open>str.isalnum()\<close> accepts, and the underscore. Beyond the letters and
  the digits these are the superscripts U+00B2, U+00B3 and U+00B9 and the fractions
  U+00BC to U+00BE.\<close>

definition is_word :: "char \<Rightarrow> bool" where
  "is_word c =
     (is_digit c \<or> is_upper c \<or> is_lower c \<or> c = CHR ''_'' \<or>
      c \<in> set [CHR 0xB2, CHR 0xB3, CHR 0xB9, CHR 0xBC, CHR 0xBD, CHR 0xBE])"

text \<open>\<open>lower_char\<close> is \<^verbatim>\<open>c.lower()\<close>; \<open>upper_char\<close> is the capital of a small letter. The
  capitals of U+00B5 and U+00FF are U+039C and U+0178, which are not 8-bit characters:
  \<open>upper_char\<close> leaves these two letters as they are, and a string whose title case
  needs one of them is outside the model.\<close>

definition lower_char :: "char \<Rightarrow> char" where
  "lower_char c =
     (case map_of (zip
       (''ABCDEFGHIJKLMNOPQRSTUVWXYZ'' @
       [CHR 0xC0, CHR 0xC1, CHR 0xC2, CHR 0xC3, CHR 0xC4, CHR 0xC5, CHR 0xC6, CHR 0xC7,
        CHR 0xC8, CHR 0xC9, CHR 0xCA, CHR 0xCB, CHR 0xCC, CHR 0xCD, CHR 0xCE, CHR 0xCF,
        CHR 0xD0, CHR 0xD1, CHR 0xD2, CHR 0xD3, CHR 0xD4, CHR 0xD5, CHR 0xD6, CHR 0xD8,
        CHR 0xD9, CHR 0xDA, CHR 0xDB, CHR 0xDC, CHR 0xDD, CHR 0xDE])
       (''abcdefghijklmnopqrstuvwxyz'' @
       [CHR 0xE0, CHR 0xE1, CHR 0xE2, CHR 0xE3, CHR 0xE4, CHR 0xE5, CHR 0xE6, CHR 0xE7,
        CHR 0xE8, CHR 0xE9, CHR 0xEA, CHR 0xEB, CHR 0xEC, CHR 0xED, CHR 0xEE, CHR 0xEF,
        CHR 0xF0, CHR 0xF1, CHR 0xF2, CHR 0xF3, CHR 0xF4, CHR 0xF5, CHR 0xF6, CHR 0xF8,
        CHR 0xF9, CHR 0xFA, CHR 0xFB, CHR 0xFC, CHR 0xFD, CHR 0xFE])) c of
        Some d \<Rightarrow> d
      | None \<Rightarrow> c)"

definition upper_char :: "char \<Rightarrow> char" where
  "upper_char c =
     (case map_of (zip
       (''abcdefghijklmnopqrstuvwxyz'' @
       [CHR 0xE0, CHR 0xE1, CHR 0xE2, CHR 0xE3, CHR 0xE4, CHR 0xE5, CHR 0xE6, CHR 0xE7,
        CHR 0xE8, CHR 0xE9, CHR 0xEA, CHR 0xEB, CHR 0xEC, CHR 0xED, CHR 0xEE, CHR 0xEF,
        CHR 0xF0, CHR 0xF1, CHR 0xF2, CHR 0xF3, CHR 0xF4, CHR 0xF5, CHR 0xF6, CHR 0xF8,
        CHR 0xF9, CHR 0xFA, CHR 0xFB, CHR 0xFC, CHR 0xFD, CHR 0xFE])
       (''ABCDEFGHIJKLMNOPQRSTUVWXYZ'' @
       [CHR 0xC0, CHR 0xC1, CHR 0xC2, CHR 0xC3, CHR 0xC4, CHR 0xC5, CHR 0xC6, CHR 0xC7,
        CHR 0xC8, CHR 0xC9, CHR 0xCA, CHR 0xCB, CHR 0xCC, CHR 0xCD, CHR 0xCE, CHR 0xCF,
        CHR 0xD0, CHR 0xD1, CHR 0xD2, CHR 0xD3, CHR 0xD4, CHR 0xD5, CHR 0xD6, CHR 0xD8,
        CHR 0xD9, CHR 0xDA, CHR 0xDB, CHR 0xDC, CHR 0xDD, CHR 0xDE])) c of
        Some d \<Rightarrow> d
      | None \<Rightarrow> c)"

text \<open>\<^verbatim>\<open>s.lower()\<close>\<close>

definition py_lower :: "string \<Rightarrow> string" where
  "py_lower s = map lower_char s"

fun starts_with :: "string \<Rightarrow> string \<Rightarrow> bool" where
  "starts_with [] s = True"
| "starts_with (p # ps) [] = False"
| "starts_with (p # ps) (c # s) = (p = c \<and> starts_with ps s)"

text \<open>\<^verbatim>\<open>x in s\<close> for strings: \<open>x\<close> occurs in \<open>s\<close> as a contiguous piece.\<close>

fun py_in :: "string \<Rightarrow> string \<Rightarrow> bool" where
  "py_in x [] = (x = [])"
| "py_in x (c # s) = (starts_with x (c # s) \<or> py_in x s)"

text \<open>\<^verbatim>\<open>s.strip()\<close>\<close>

definition py_strip :: "string \<Rightarrow> string" where
  "py_strip s = rev (dropWhile is_space (rev (dropWhile is_space s)))"

text \<open>\<^verbatim>\<open>sep.join(xs)\<close>\<close>

fun py_join :: "string \<Rightarrow> string list \<Rightarrow> string" where
  "py_join sep [] = []"
| "py_join sep [x] = x"
| "py_join sep (x # y # ys) = x @ sep @ py_join sep (y # ys)"

text \<open>\<^verbatim>\<open>s.split(d)\<close> for a one-character separator: an empty string gives one empty
  piece.\<close>

fun py_split :: "char \<Rightarrow> string \<Rightarrow> string list" where
  "py_split d [] = [[]]"
| "py_split d (c # s) =
     (if c = d then [] # py_split d s
      else (case py_split d s of [] \<Rightarrow> [[c]] | w # ws \<Rightarrow> (c # w) # ws))"

text \<open>\<^verbatim>\<open>s.replace(a, b)\<close> for a one-character \<open>a\<close>.\<close>

definition py_replace :: "char \<Rightarrow> string \<Rightarrow> string \<Rightarrow> string" where
  "py_replace a b s = concat (map (\<lambda>c. if c = a then b else [c]) s)"

text \<open>\<^verbatim>\<open>s.title()\<close>: a character that follows a cased character is lowered, any other
  character is put in title case (the sharp s becomes \<^verbatim>\<open>Ss\<close>); the flag says whether the
  previous character was cased.\<close>

definition title_char :: "char \<Rightarrow> string" where
  "title_char c = (if c = CHR 0xDF then ''Ss'' else [upper_char c])"

fun title_from :: "bool \<Rightarrow> string \<Rightarrow> string" where
  "title_from prev [] = []"
| "title_from prev (c # s) =
     (if prev then [lower_char c] else title_char c) @ title_from (is_upper c \<or> is_lower c) s"

definition py_title :: "string \<Rightarrow> string" where
  "py_title s = title_from False s"

subsection \<open>Regular expressions\<close>

text \<open>
  Every pattern of the source is compiled with \<^verbatim>\<open>re.IGNORECASE\<close>, so a literal
  character matches in either case. A character set lists its members: a character, or
  one of the classes \<^verbatim>\<open>\d\<close>, \<^verbatim>\<open>\s\<close>, \<^verbatim>\<open>\w\<close>, \<^verbatim>\<open>[A-Za-z]\<close>.
\<close>

datatype citem = Ch char | Digit | Space | Word | Alpha

fun in_item :: "char \<Rightarrow> citem \<Rightarrow> bool" where
  "in_item c (Ch d) = (lower_char c = lower_char d)"
| "in_item c Digit = is_digit c"
| "in_item c Space = is_space c"
| "in_item c Word = is_word c"
| "in_item c Alpha = is_ascii_letter c"

datatype cset = In "citem list" | NotIn "citem list"

fun in_cset :: "cset \<Rightarrow> char \<Rightarrow> bool" where
  "in_cset (In its) c = list_ex (in_item c) its"
| "in_cset (NotIn its) c = (\<not> list_ex (in_item c) its)"

text \<open>
  The patterns of the source repeat (\<^verbatim>\<open>*\<close>, \<^verbatim>\<open>+\<close>) character sets only, so \<open>Star\<close> takes
  a set. \<open>Opt\<close> is \<^verbatim>\<open>?\<close>, \<open>Alt\<close> is \<^verbatim>\<open>|\<close>.
\<close>

datatype rx = Eps | Sym cset | Seq rx rx | Alt rx rx | Opt rx | Star cset

text \<open>
  The matcher is written with a continuation \<open>k\<close> for the rest of the pattern, and
  tries the alternatives in the order of a backtracking engine: the left branch of
  \<^verbatim>\<open>|\<close> first, one more repetition before one fewer, a \<^verbatim>\<open>?\<close> taken before it is
  skipped. The first way in which the whole pattern matches is the result.
\<close>

fun star_greedy :: "cset \<Rightarrow> string \<Rightarrow> (string \<Rightarrow> 'a option) \<Rightarrow> 'a option" where
  "star_greedy cs [] k = k []"
| "star_greedy cs (c # s) k =
     (if in_cset cs c
      then (case star_greedy cs s k of Some r \<Rightarrow> Some r | None \<Rightarrow> k (c # s))
      else k (c # s))"

fun rx_match :: "rx \<Rightarrow> string \<Rightarrow> (string \<Rightarrow> 'a option) \<Rightarrow> 'a option" where
  "rx_match Eps s k = k s"
| "rx_match (Sym cs) s k =
     (case s of [] \<Rightarrow> None | c # t \<Rightarrow> if in_cset cs c then k t else None)"
| "rx_match (Seq a b) s k = rx_match a s (\<lambda>t. rx_match b t k)"
| "rx_match (Alt a b) s k =
     (case rx_match a s k of Some r \<Rightarrow> Some r | None \<Rightarrow> rx_match b s k)"
| "rx_match (Opt a) s k =
     (case rx_match a s k of Some r \<Rightarrow> Some r | None \<Rightarrow> k s)"
| "rx_match (Star cs) s k = star_greedy cs s k"

text \<open>
  A pattern with one capturing group, \<^verbatim>\<open>A(B)C\<close>, is the triple \<open>(A, B, C)\<close>; a pattern
  without a group is \<open>(Eps, B, Eps)\<close>, and its group is the whole match, which is what
  \<^verbatim>\<open>re.findall\<close> returns for it. \<open>match_here\<close> matches at the start of \<open>s\<close> and returns
  the text of the group and the text after the match.
\<close>

type_synonym pattern = "rx \<times> rx \<times> rx"

fun match_here :: "pattern \<Rightarrow> string \<Rightarrow> (string \<times> string) option" where
  "match_here (a, b, c) s =
     rx_match a s (\<lambda>s1. rx_match b s1 (\<lambda>s2. rx_match c s2
       (\<lambda>s3. Some (take (length s1 - length s2) s1, s3))))"

text \<open>\<^verbatim>\<open>re.search(pattern, text, re.IGNORECASE)\<close>: the leftmost match.\<close>

fun re_search :: "pattern \<Rightarrow> string \<Rightarrow> (string \<times> string) option" where
  "re_search p [] = match_here p []"
| "re_search p (c # s) =
     (case match_here p (c # s) of Some m \<Rightarrow> Some m | None \<Rightarrow> re_search p s)"

text \<open>
  \<^verbatim>\<open>re.findall(pattern, text, re.IGNORECASE)\<close>: the groups of the matches found from left
  to right, each search starting where the previous match ended (one character further
  after an empty match).
\<close>

function re_findall :: "pattern \<Rightarrow> string \<Rightarrow> string list" where
  "re_findall p s =
     (case match_here p s of
        Some (g, rest) \<Rightarrow>
          g # (if s = [] then []
               else if length rest < length s then re_findall p rest
               else re_findall p (tl s))
      | None \<Rightarrow> (if s = [] then [] else re_findall p (tl s)))"
  by pat_completeness auto
termination
  by (relation "measure (\<lambda>(p, s). length s)") auto

fun lit :: "string \<Rightarrow> rx" where
  "lit [] = Eps"
| "lit (c # s) = Seq (Sym (In [Ch c])) (lit s)"

definition seqs :: "rx list \<Rightarrow> rx" where
  "seqs rs = foldr Seq rs Eps"

fun alts :: "rx list \<Rightarrow> rx" where
  "alts [] = Eps"
| "alts [r] = r"
| "alts (r # q # rs) = Alt r (alts (q # rs))"

definition one :: "citem list \<Rightarrow> rx" where
  "one its = Sym (In its)"

definition star :: "citem list \<Rightarrow> rx" where
  "star its = Star (In its)"

definition plus1 :: "citem list \<Rightarrow> rx" where
  "plus1 its = Seq (Sym (In its)) (Star (In its))"

subsection \<open>Numbers: \<^verbatim>\<open>float()\<close>, \<^verbatim>\<open>str()\<close> and \<^verbatim>\<open>format()\<close>\<close>

text \<open>
  The strings that reach \<^verbatim>\<open>float()\<close> are groups of the patterns below with the commas
  removed: digits, with at most one fractional part after a dot. \<open>py_float\<close> reads such
  a string as the decimal number it writes; the empty string, a lone dot and any other
  character give \<open>None\<close> (\<^verbatim>\<open>ValueError\<close>, which every caller catches).

  Python rounds the decimal to the nearest double. The groups carry at most two
  fractional digits; for such decimals the comparisons with 1000, 200000, 5000, 50000, 50
  and 99.95, the rounding of \<^verbatim>\<open>format(x, ',.0f')\<close> and the digits printed by \<^verbatim>\<open>str(x)\<close>
  are those of the exact value, which is what the model computes with.
\<close>

definition digit_val :: "char \<Rightarrow> nat" where
  "digit_val c = of_char c - 48"

definition digits_val :: "string \<Rightarrow> nat" where
  "digits_val ds = foldl (\<lambda>n c. 10 * n + digit_val c) 0 ds"

definition py_float :: "string \<Rightarrow> rat option" where
  "py_float s =
     (let ip = takeWhile is_digit s; r = dropWhile is_digit s in
      if r = [] then (if ip = [] then None else Some (of_nat (digits_val ip)))
      else if hd r = CHR ''.'' \<and> list_all is_digit (tl r) \<and> (ip \<noteq> [] \<or> tl r \<noteq> [])
      then Some (of_nat (digits_val (ip @ tl r)) / of_nat (10 ^ length (tl r)))
      else None)"

definition digit_char :: "nat \<Rightarrow> char" where
  "digit_char d = ''0123456789'' ! d"

fun dec :: "nat \<Rightarrow> string" where
  "dec n = (if n < 10 then [digit_char n] else dec (n div 10) @ [digit_char (n mod 10)])"

text \<open>\<^verbatim>\<open>format(n, ',')\<close> for a natural number: groups of three digits.\<close>

fun thousands :: "nat \<Rightarrow> string" where
  "thousands n =
     (if n < 1000 then dec n
      else thousands (n div 1000) @ '','' @
           [digit_char (n mod 1000 div 100), digit_char (n mod 100 div 10), digit_char (n mod 10)])"

text \<open>Rounding to an integer, a half to the even neighbour.\<close>

definition round_half_even :: "rat \<Rightarrow> nat" where
  "round_half_even x =
     (let f = nat \<lfloor>x\<rfloor>; r = x - of_nat f in
      if r < 1 / 2 then f else if 1 / 2 < r then f + 1 else if even f then f else f + 1)"

text \<open>\<^verbatim>\<open>f"${fee_num:,.0f}"\<close>\<close>

definition fmt_fee :: "rat \<Rightarrow> string" where
  "fmt_fee x = ''$'' @ thousands (round_half_even x)"

text \<open>\<^verbatim>\<open>str(x)\<close> of a float with at most two fractional digits: the integer part, a dot,
  and the fractional digits without a trailing zero (at least one digit).\<close>

definition py_str_float :: "rat \<Rightarrow> string" where
  "py_str_float x =
     (let h = nat \<lfloor>x * 100\<rfloor>; fp = h mod 100 in
      dec (h div 100) @ ''.'' @
      (if fp mod 10 = 0 then [digit_char (fp div 10)]
       else [digit_char (fp div 10), digit_char (fp mod 10)]))"

subsection \<open>The patterns of the source\<close>

text \<open>Pieces that several patterns share.\<close>

text \<open>\<^verbatim>\<open>\d+(?:\.\d+)?\<close>\<close>
definition rx_number :: rx where
  "rx_number = Seq (plus1 [Digit]) (Opt (Seq (lit ''.'') (plus1 [Digit])))"

text \<open>\<^verbatim>\<open>years?\<close>, \<^verbatim>\<open>months?\<close>, ...\<close>
definition opt_s :: "string \<Rightarrow> rx" where
  "opt_s w = Seq (lit w) (Opt (lit ''s''))"

text \<open>\<^verbatim>\<open>full[- ]?time\<close> and \<^verbatim>\<open>part[- ]?time\<close>\<close>
definition full_time :: rx where
  "full_time = seqs [lit ''full'', Opt (one [Ch CHR ''-'', Ch CHR '' '']), lit ''time'']"

definition part_time :: rx where
  "part_time = seqs [lit ''part'', Opt (one [Ch CHR ''-'', Ch CHR '' '']), lit ''time'']"

text \<open>\<^verbatim>\<open>\d+(?:\.\d+)?[\s-]*(?:to[\s-]*\d+(?:\.\d+)?)?\<close>\<close>
definition rx_span :: rx where
  "rx_span = seqs [rx_number, star [Space, Ch CHR ''-''],
                   Opt (seqs [lit ''to'', star [Space, Ch CHR ''-''], rx_number])]"

text \<open>\<^verbatim>\<open>\d+(?:\.\d+)?[\s]*(?:years?|months?|semesters?)\<close>\<close>
definition rx_period :: rx where
  "rx_period = seqs [rx_number, star [Space],
                     alts [opt_s ''year'', opt_s ''month'', opt_s ''semester'']]"

text \<open>The six patterns of \<^verbatim>\<open>_smart_extract_duration\<close>, in the order of the source:
  \<^verbatim>\<open>(?:duration|length|time)[:\s]+(\d+(?:\.\d+)?[\s-]*(?:to[\s-]*\d+(?:\.\d+)?)?[\s]*(?:years?|months?|semesters?|weeks?)(?:[\s]*(?:full[- ]?time|part[- ]?time|FT|PT))?)\<close>
  \<^verbatim>\<open>(\d+(?:\.\d+)?[\s-]*(?:to[\s-]*\d+(?:\.\d+)?)?[\s]*years?[\s]*(?:full[- ]?time|part[- ]?time)?)\<close>
  \<^verbatim>\<open>(?:full[- ]?time)[:\s]+(\d+(?:\.\d+)?[\s]*(?:years?|months?|semesters?))\<close>
  \<^verbatim>\<open>(?:part[- ]?time)[:\s]+(\d+(?:\.\d+)?[\s]*(?:years?|months?|semesters?))\<close>
  \<^verbatim>\<open>(\d+[\s-]*(?:year|yr)s?[\s]+(?:full[- ]?time|FT))\<close>
  \<^verbatim>\<open>(\d+[\s-]*(?:year|yr)s?[\s]+(?:part[- ]?time|PT))\<close>\<close>

definition duration_p1 :: pattern where
  "duration_p1 =
     (seqs [alts [lit ''duration'', lit ''length'', lit ''time''], plus1 [Ch CHR '':'', Space]],
     seqs [rx_span, star [Space],
     alts [opt_s ''year'', opt_s ''month'', opt_s ''semester'', opt_s ''week''],
     Opt (seqs [star [Space], alts [full_time, part_time, lit ''FT'', lit ''PT'']])],
     Eps)"

definition duration_p2 :: pattern where
  "duration_p2 =
     (Eps,
     seqs [rx_span, star [Space], opt_s ''year'', star [Space],
     Opt (alts [full_time, part_time])],
     Eps)"

definition duration_p3 :: pattern where
  "duration_p3 =
     (seqs [full_time, plus1 [Ch CHR '':'', Space]], rx_period, Eps)"

definition duration_p4 :: pattern where
  "duration_p4 =
     (seqs [part_time, plus1 [Ch CHR '':'', Space]], rx_period, Eps)"

definition duration_p5 :: pattern where
  "duration_p5 =
     (Eps,
     seqs [plus1 [Digit], star [Space, Ch CHR ''-''], alts [lit ''year'', lit ''yr''],
     Opt (lit ''s''), plus1 [Space], alts [full_time, lit ''FT'']],
     Eps)"

definition duration_p6 :: pattern where
  "duration_p6 =
     (Eps,
     seqs [plus1 [Digit], star [Space, Ch CHR ''-''], alts [lit ''year'', lit ''yr''],
     Opt (lit ''s''), plus1 [Space], alts [part_time, lit ''PT'']],
     Eps)"

definition duration_patterns :: "pattern list" where
  "duration_patterns = [duration_p1, duration_p2, duration_p3, duration_p4, duration_p5, duration_p6]"

text \<open>\<^verbatim>\<open>(?:per[\s]*year|p\.?a\.?|annually)\<close> and \<^verbatim>\<open>(?:per[\s]*year|p\.?a\.?)\<close> and
  \<^verbatim>\<open>(?:per[\s]*year|annually|p\.?a\.?)\<close>\<close>

definition per_year :: rx where
  "per_year = seqs [lit ''per'', star [Space], lit ''year'']"

definition per_annum :: rx where
  "per_annum = seqs [lit ''p'', Opt (lit ''.''), lit ''a'', Opt (lit ''.'')]"

text \<open>\<^verbatim>\<open>[\d,]+(?:\.\d{2})?\<close>\<close>
definition rx_amount :: rx where
  "rx_amount = Seq (plus1 [Digit, Ch CHR '','']) (Opt (seqs [lit ''.'', one [Digit], one [Digit]]))"

text \<open>The patterns of \<^verbatim>\<open>_smart_extract_fees\<close> for \<^verbatim>\<open>fee_type == 'domestic'\<close>:
  \<^verbatim>\<open>(?:domestic|australian|local)[\s\w]*(?:fee|cost|tuition)[s]?[:\s]*\$?([\d,]+(?:\.\d{2})?)\<close>
  \<^verbatim>\<open>(?:CSP|commonwealth[\s]*supported)[:\s]*\$?([\d,]+)\<close>
  \<^verbatim>\<open>(?:annual[\s]*)?(?:fee|tuition)[:\s]*\$?([\d,]+)[\s]*(?:per[\s]*year|p\.?a\.?|annually)\<close>\<close>

definition domestic_fee_p1 :: pattern where
  "domestic_fee_p1 =
     (seqs [alts [lit ''domestic'', lit ''australian'', lit ''local''], star [Space, Word],
     alts [lit ''fee'', lit ''cost'', lit ''tuition''], Opt (one [Ch CHR ''s'']),
     star [Ch CHR '':'', Space], Opt (lit ''$'')],
     rx_amount,
     Eps)"

definition domestic_fee_p2 :: pattern where
  "domestic_fee_p2 =
     (seqs [alts [lit ''CSP'', seqs [lit ''commonwealth'', star [Space], lit ''supported'']],
     star [Ch CHR '':'', Space], Opt (lit ''$'')],
     plus1 [Digit, Ch CHR '',''],
     Eps)"

definition domestic_fee_p3 :: pattern where
  "domestic_fee_p3 =
     (seqs [Opt (seqs [lit ''annual'', star [Space]]), alts [lit ''fee'', lit ''tuition''],
     star [Ch CHR '':'', Space], Opt (lit ''$'')],
     plus1 [Digit, Ch CHR '',''],
     seqs [star [Space], alts [per_year, per_annum, lit ''annually'']])"

definition domestic_fee_patterns :: "pattern list" where
  "domestic_fee_patterns = [domestic_fee_p1, domestic_fee_p2, domestic_fee_p3]"

text \<open>and for any other \<^verbatim>\<open>fee_type\<close>:
  \<^verbatim>\<open>(?:international|overseas)[\s\w]*(?:fee|cost|tuition)[s]?[:\s]*\$?([\d,]+(?:\.\d{2})?)\<close>
  \<^verbatim>\<open>(?:international)[\s\w]*\$?([\d,]+)[\s]*(?:per[\s]*year|p\.?a\.?)\<close>\<close>

definition international_fee_p1 :: pattern where
  "international_fee_p1 =
     (seqs [alts [lit ''international'', lit ''overseas''], star [Space, Word],
     alts [lit ''fee'', lit ''cost'', lit ''tuition''], Opt (one [Ch CHR ''s'']),
     star [Ch CHR '':'', Space], Opt (lit ''$'')],
     rx_amount,
     Eps)"

definition international_fee_p2 :: pattern where
  "international_fee_p2 =
     (seqs [lit ''international'', star [Space, Word], Opt (lit ''$'')],
     plus1 [Digit, Ch CHR '',''],
     seqs [star [Space], alts [per_year, per_annum]])"

definition international_fee_patterns :: "pattern list" where
  "international_fee_patterns = [international_fee_p1, international_fee_p2]"

text \<open>The fallback pattern of the domestic fee:
  \<^verbatim>\<open>\$([\d,]+)[\s]*(?:per[\s]*year|annually|p\.?a\.?)\<close>\<close>

definition generic_fee_pattern :: pattern where
  "generic_fee_pattern =
     (lit ''$'', plus1 [Digit, Ch CHR '',''],
      seqs [star [Space], alts [per_year, lit ''annually'', per_annum]])"

text \<open>The patterns of \<^verbatim>\<open>_smart_extract_requirements\<close>:
  \<^verbatim>\<open>(?:entry requirements?|admission requirements?|prerequisites?)[:\s]+([^.]+\.)\<close>
  \<^verbatim>\<open>(?:you(?:\'ll)?[\s]+need|applicants?[\s]+must[\s]+have)[:\s]+([^.]+\.)\<close>\<close>

definition sentence :: rx where
  "sentence = seqs [Sym (NotIn [Ch CHR ''.'']), Star (NotIn [Ch CHR ''.'']), lit ''.'']"

definition requirement_p1 :: pattern where
  "requirement_p1 =
     (seqs [alts [opt_s ''entry requirement'', opt_s ''admission requirement'',
     opt_s ''prerequisite''],
     plus1 [Ch CHR '':'', Space]],
     sentence, Eps)"

definition requirement_p2 :: pattern where
  "requirement_p2 =
     (seqs [alts [seqs [lit ''you'', Opt (lit [CHR 0x27, CHR ''l'', CHR ''l'']), plus1 [Space],
     lit ''need''],
     seqs [opt_s ''applicant'', plus1 [Space], lit ''must'', plus1 [Space],
     lit ''have'']],
     plus1 [Ch CHR '':'', Space]],
     sentence, Eps)"

definition requirement_patterns :: "pattern list" where
  "requirement_patterns = [requirement_p1, requirement_p2]"

text \<open>\<^verbatim>\<open>\d{2}(?:\.\d{1,2})?\<close>\<close>
definition rx_rank :: rx where
  "rx_rank = seqs [one [Digit], one [Digit],
                   Opt (seqs [lit ''.'', one [Digit], Opt (one [Digit])])]"

text \<open>The patterns of \<^verbatim>\<open>_extract_atar\<close>:
  \<^verbatim>\<open>ATAR[:\s]+(\d{2}(?:\.\d{1,2})?)\<close>
  \<^verbatim>\<open>(?:selection[\s]+rank|minimum[\s]+ATAR)[:\s]+(\d{2}(?:\.\d{1,2})?)\<close>
  \<^verbatim>\<open>(\d{2}(?:\.\d{1,2})?)[\s]*ATAR\<close>\<close>

definition atar_p1 :: pattern where
  "atar_p1 =
     (seqs [lit ''ATAR'', plus1 [Ch CHR '':'', Space]], rx_rank, Eps)"

definition atar_p2 :: pattern where
  "atar_p2 =
     (seqs [alts [seqs [lit ''selection'', plus1 [Space], lit ''rank''],
     seqs [lit ''minimum'', plus1 [Space], lit ''ATAR'']],
     plus1 [Ch CHR '':'', Space]],
     rx_rank, Eps)"

definition atar_p3 :: pattern where
  "atar_p3 =
     (Eps, rx_rank, seqs [star [Space], lit ''ATAR''])"

definition atar_patterns :: "pattern list" where
  "atar_patterns = [atar_p1, atar_p2, atar_p3]"

text \<open>The patterns of \<^verbatim>\<open>_extract_intake\<close>; the third has no group:
  \<^verbatim>\<open>(?:intake|start|commence)[s]?[:\s]+(?:in[\s]+)?([A-Za-z]+[\s]+\d{4})\<close>
  \<^verbatim>\<open>(?:semester[\s]+[12]|term[\s]+[1-4])[,\s]+(\d{4})\<close>
  \<^verbatim>\<open>(?:february|march|july|august)[\s]+(?:and[\s]+)?(?:february|march|july|august)?[\s]*(?:intake)?\<close>\<close>

definition rx_year :: rx where
  "rx_year = seqs [one [Digit], one [Digit], one [Digit], one [Digit]]"

definition rx_month :: rx where
  "rx_month = alts [lit ''february'', lit ''march'', lit ''july'', lit ''august'']"

definition intake_p1 :: pattern where
  "intake_p1 =
     (seqs [alts [lit ''intake'', lit ''start'', lit ''commence''], Opt (one [Ch CHR ''s'']),
     plus1 [Ch CHR '':'', Space], Opt (seqs [lit ''in'', plus1 [Space]])],
     seqs [plus1 [Alpha], plus1 [Space], rx_year],
     Eps)"

definition intake_p2 :: pattern where
  "intake_p2 =
     (seqs [alts [seqs [lit ''semester'', plus1 [Space], one [Ch CHR ''1'', Ch CHR ''2'']],
     seqs [lit ''term'', plus1 [Space],
     one [Ch CHR ''1'', Ch CHR ''2'', Ch CHR ''3'', Ch CHR ''4'']]],
     plus1 [Ch CHR '','', Space]],
     rx_year,
     Eps)"

definition intake_p3 :: pattern where
  "intake_p3 =
     (Eps,
     seqs [rx_month, plus1 [Space], Opt (seqs [lit ''and'', plus1 [Space]]), Opt rx_month,
     star [Space], Opt (lit ''intake'')],
     Eps)"

definition intake_patterns :: "pattern list" where
  "intake_patterns = [intake_p1, intake_p2, intake_p3]"

subsection \<open>The parsed page and the Python runtime\<close>

text \<open>
  The document, as the extractors see it through BeautifulSoup. Every text is the
  \<^verbatim>\<open>get_text(strip=True)\<close> of its element.
  \<^item> \<open>page_text\<close>: \<^verbatim>\<open>soup.get_text(separator=' ', strip=True)\<close>;
  \<^item> \<open>select sel\<close>: the texts of the elements \<^verbatim>\<open>soup.select(sel)\<close>, in document order
    (\<^verbatim>\<open>soup.select_one(sel)\<close> is the first of them);
  \<^item> \<open>meta_description\<close>: the \<^verbatim>\<open>content\<close> of the first \<^verbatim>\<open>meta\<close> element named
    \<^verbatim>\<open>description\<close>, \<open>None\<close> when the element or the attribute is missing;
  \<^item> \<open>og_title\<close>: the same for the first \<^verbatim>\<open>meta\<close> element with property \<^verbatim>\<open>og:title\<close>;
  \<^item> \<open>paragraphs\<close>: the texts of \<^verbatim>\<open>soup.find_all('p')\<close>;
  \<^item> \<open>ld_json\<close>: for every \<^verbatim>\<open>script\<close> of type \<^verbatim>\<open>application/ld+json\<close>, what
    \<^verbatim>\<open>json.loads(script.string)\<close> returns, \<open>None\<close> when it raises \<^verbatim>\<open>JSONDecodeError\<close> or
    \<^verbatim>\<open>TypeError\<close>;
  \<^item> \<open>dls\<close>: for every \<^verbatim>\<open>dl\<close>, the texts of its \<^verbatim>\<open>dt\<close> and of its \<^verbatim>\<open>dd\<close> elements;
  \<^item> \<open>tables\<close>: for every \<^verbatim>\<open>table\<close>, for every \<^verbatim>\<open>tr\<close>, the texts of its \<^verbatim>\<open>th\<close>/\<^verbatim>\<open>td\<close> cells;
  \<^item> \<open>kv_containers\<close>: for every \<^verbatim>\<open>div\<close>/\<^verbatim>\<open>li\<close> whose class matches
    \<^verbatim>\<open>key-info|detail|fact|stat\<close>, the text of its first label element and of its first
    value element (\<open>None\<close> when there is none).
\<close>

datatype json =
    JNull
  | JBool bool
  | JInt int
  | JFloat rat
  | JStr string
  | JArr "json list"
  | JObj "(string \<times> json) list"

record soup =
  page_text :: string
  select :: "string \<Rightarrow> string list"
  meta_description :: "string option"
  og_title :: "string option"
  paragraphs :: "string list"
  ld_json :: "json option list"
  dls :: "(string list \<times> string list) list"
  tables :: "string list list list"
  kv_containers :: "(string option \<times> string option) list"

definition select_one :: "soup \<Rightarrow> string \<Rightarrow> string option" where
  "select_one sp sel = (case select sp sel of [] \<Rightarrow> None | t # _ \<Rightarrow> Some t)"

text \<open>
  What the interpreter and its libraries decide:
  \<^item> \<open>html_parser\<close>: \<^verbatim>\<open>BeautifulSoup(html, 'html.parser')\<close>;
  \<^item> \<open>urlparse_path\<close>: \<^verbatim>\<open>urlparse(url).path\<close>;
  \<^item> \<open>set_iter xs\<close>: the order in which \<^verbatim>\<open>set(xs)\<close> is iterated, for a list of
    strings. It lists the distinct elements of \<open>xs\<close>; their order follows the hashes of
    the strings, which CPython salts with a seed drawn when the process starts.
\<close>

record py_runtime =
  html_parser :: "string \<Rightarrow> soup"
  urlparse_path :: "string \<Rightarrow> string"
  set_iter :: "string list \<Rightarrow> string list"

subsection \<open>\<^verbatim>\<open>_extract_json_ld\<close> and \<^verbatim>\<open>_parse_schema_item\<close>\<close>

text \<open>
  A value of the result dictionary is a value of the JSON item, or the f-string
  \<^verbatim>\<open>f"${v}"\<close>: \<open>Dollar v\<close> stands for the string made of a dollar sign and \<^verbatim>\<open>str(v)\<close>.
  A dictionary is an association list in insertion order; \<open>AList.update\<close> is
  \<^verbatim>\<open>d[k] = v\<close> (a known key keeps its place, a new key goes last).
\<close>

datatype ld_value = Raw json | Dollar json

datatype py_error = AttributeError

definition dict_update :: "('k \<times> 'v) list \<Rightarrow> ('k \<times> 'v) list \<Rightarrow> ('k \<times> 'v) list" where
  "dict_update d other = fold (\<lambda>(k, v). AList.update k v) other d"

definition schema_types :: "string list" where
  "schema_types = [''Course'', ''EducationalOccupationalProgram'', ''Program'',
                   ''CollegeOrUniversity'', ''Organization'']"

text \<open>The steps of \<^verbatim>\<open>_parse_schema_item\<close> on a dictionary \<open>item\<close> of a listed type, each
  on the result so far.\<close>

definition put_name :: "(string \<times> json) list \<Rightarrow> (string \<times> ld_value) list \<Rightarrow> (string \<times> ld_value) list" where
  "put_name item r =
     (case map_of item ''name'' of Some v \<Rightarrow> AList.update ''name'' (Raw v) r | None \<Rightarrow> r)"

definition put_description :: "(string \<times> json) list \<Rightarrow> (string \<times> ld_value) list \<Rightarrow> (string \<times> ld_value) list" where
  "put_description item r =
     (case map_of item ''description'' of
        Some v \<Rightarrow> AList.update ''description'' (Raw v) r
      | None \<Rightarrow> r)"

definition put_duration :: "(string \<times> json) list \<Rightarrow> (string \<times> ld_value) list \<Rightarrow> (string \<times> ld_value) list" where
  "put_duration item r =
     (case map_of item ''timeToComplete'' of
        Some v \<Rightarrow> AList.update ''duration'' (Raw v) r
      | None \<Rightarrow>
          (case map_of item ''duration'' of
             Some v \<Rightarrow> AList.update ''duration'' (Raw v) r
           | None \<Rightarrow> r))"

text \<open>\<^verbatim>\<open>offers[0].get('price', '')\<close> raises \<^verbatim>\<open>AttributeError\<close> when the first offer is
  not a dictionary.\<close>

definition put_fees :: "(string \<times> json) list \<Rightarrow> (string \<times> ld_value) list \<Rightarrow> py_error + (string \<times> ld_value) list" where
  "put_fees item r =
     (case map_of item ''offers'' of
        None \<Rightarrow> Inr r
      | Some (JObj offers) \<Rightarrow>
          (case map_of offers ''price'' of
             Some v \<Rightarrow> Inr (AList.update ''fees'' (Dollar v) r)
           | None \<Rightarrow> Inr r)
      | Some (JArr []) \<Rightarrow> Inr r
      | Some (JArr (JObj offer # _)) \<Rightarrow>
          Inr (AList.update ''fees''
                 (Dollar (case map_of offer ''price'' of Some v \<Rightarrow> v | None \<Rightarrow> JStr [])) r)
      | Some (JArr (_ # _)) \<Rightarrow> Inl AttributeError
      | Some _ \<Rightarrow> Inr r)"

definition put_provider :: "(string \<times> json) list \<Rightarrow> (string \<times> ld_value) list \<Rightarrow> (string \<times> ld_value) list" where
  "put_provider item r =
     (case map_of item ''provider'' of
        Some (JObj provider) \<Rightarrow>
          AList.update ''university''
            (Raw (case map_of provider ''name'' of Some v \<Rightarrow> v | None \<Rightarrow> JStr [])) r
      | _ \<Rightarrow> r)"

definition put_credential :: "(string \<times> json) list \<Rightarrow> (string \<times> ld_value) list \<Rightarrow> (string \<times> ld_value) list" where
  "put_credential item r =
     (case map_of item ''educationalCredentialAwarded'' of
        Some v \<Rightarrow> AList.update ''credential'' (Raw v) r
      | None \<Rightarrow> r)"

definition put_careers :: "(string \<times> json) list \<Rightarrow> (string \<times> ld_value) list \<Rightarrow> (string \<times> ld_value) list" where
  "put_careers item r =
     (case map_of item ''occupationalCategory'' of
        Some v \<Rightarrow> AList.update ''careers'' (Raw v) r
      | None \<Rightarrow> r)"

definition has_schema_type :: "(string \<times> json) list \<Rightarrow> bool" where
  "has_schema_type item =
     (case map_of item ''@type'' of Some (JStr t) \<Rightarrow> t \<in> set schema_types | _ \<Rightarrow> False)"

fun parse_schema_item :: "json \<Rightarrow> py_error + (string \<times> ld_value) list" where
  "parse_schema_item (JObj item) =
     (if has_schema_type item
      then (case put_fees item (put_duration item (put_description item (put_name item []))) of
              Inl e \<Rightarrow> Inl e
            | Inr r \<Rightarrow> Inr (put_careers item (put_credential item (put_provider item r))))
      else Inr [])"
| "parse_schema_item _ = Inr []"

text \<open>The body of the loop of \<^verbatim>\<open>_extract_json_ld\<close> for one script, and the loop over the
  items of an array.\<close>

fun update_items :: "(string \<times> ld_value) list \<Rightarrow> json list \<Rightarrow> py_error + (string \<times> ld_value) list" where
  "update_items d [] = Inr d"
| "update_items d (item # items) =
     (case parse_schema_item item of
        Inl e \<Rightarrow> Inl e
      | Inr r \<Rightarrow> update_items (dict_update d r) items)"

fun update_script :: "(string \<times> ld_value) list \<Rightarrow> json option \<Rightarrow> py_error + (string \<times> ld_value) list" where
  "update_script d None = Inr d"
| "update_script d (Some (JArr items)) = update_items d items"
| "update_script d (Some v) = update_items d [v]"

fun json_ld_loop :: "(string \<times> ld_value) list \<Rightarrow> json option list \<Rightarrow> py_error + (string \<times> ld_value) list" where
  "json_ld_loop d [] = Inr d"
| "json_ld_loop d (sc # scs) =
     (case update_script d sc of Inl e \<Rightarrow> Inl e | Inr d' \<Rightarrow> json_ld_loop d' scs)"

definition extract_json_ld :: "soup \<Rightarrow> py_error + (string \<times> ld_value) list" where
  "extract_json_ld sp = json_ld_loop [] (ld_json sp)"

subsection \<open>\<^verbatim>\<open>_extract_from_tables\<close> and \<^verbatim>\<open>_map_table_value\<close>\<close>

definition key_mappings :: "(string \<times> string list) list" where
  "key_mappings =
     [(''duration'', [''duration'', ''length'', ''time to complete'', ''study period'',
                      ''course length'']),
      (''fees'', [''fees'', ''tuition'', ''cost'', ''price'', ''annual fee'', ''course fee'']),
      (''fees_domestic'', [''domestic fee'', ''csp'', ''commonwealth supported'',
                           ''australian fee'']),
      (''fees_international'', [''international fee'', ''overseas fee'',
                                ''international tuition'']),
      (''atar'', [''atar'', ''selection rank'', ''guaranteed atar'', ''minimum atar'']),
      (''credit_points'', [''credit points'', ''units'', ''credits'', ''credit hours'',
                           ''total units'']),
      (''course_code'', [''course code'', ''program code'', ''code'', ''cricos'']),
      (''intake'', [''intake'', ''start date'', ''commencement'', ''start'']),
      (''campus'', [''campus'', ''location'', ''study location'']),
      (''study_mode'', [''study mode'', ''mode of delivery'', ''delivery mode'',
                        ''attendance''])]"

text \<open>The first key of the mappings one of whose patterns occurs in the label: the key at
  which the loop of \<^verbatim>\<open>_map_table_value\<close> reaches its \<^verbatim>\<open>break\<close>.\<close>

fun matching_key :: "(string \<times> string list) list \<Rightarrow> string \<Rightarrow> string option" where
  "matching_key [] label = None"
| "matching_key ((key, patterns) # km) label =
     (if list_ex (\<lambda>pattern. py_in pattern label) patterns then Some key
      else matching_key km label)"

definition map_table_value ::
  "(string \<times> string) list \<Rightarrow> string \<Rightarrow> string \<Rightarrow> (string \<times> string list) list \<Rightarrow> (string \<times> string) list" where
  "map_table_value table_data label val km =
     (if val = [] \<or> length val < 2 then table_data
      else (case matching_key km label of
              None \<Rightarrow> table_data
            | Some key \<Rightarrow>
                (case map_of table_data key of
                   None \<Rightarrow> AList.update key val table_data
                 | Some old \<Rightarrow>
                     if length old < length val then AList.update key val table_data
                     else table_data)))"

text \<open>The label/value pairs in the order in which \<^verbatim>\<open>_extract_from_tables\<close> meets them:
  the \<^verbatim>\<open>zip\<close> of the terms and definitions of every list, the first two cells of every
  row with at least two cells, the containers with both a label and a value. The labels
  are lowered.\<close>

definition dl_pairs :: "soup \<Rightarrow> (string \<times> string) list" where
  "dl_pairs sp = concat (map (\<lambda>(dts, dds). zip (map py_lower dts) dds) (dls sp))"

fun row_pair :: "string list \<Rightarrow> (string \<times> string) list" where
  "row_pair (c0 # c1 # _) = [(py_lower c0, c1)]"
| "row_pair _ = []"

definition table_pairs :: "soup \<Rightarrow> (string \<times> string) list" where
  "table_pairs sp = concat (map (\<lambda>rows. concat (map row_pair rows)) (tables sp))"

fun container_pair :: "string option \<times> string option \<Rightarrow> (string \<times> string) list" where
  "container_pair (Some label, Some val) = [(py_lower label, val)]"
| "container_pair _ = []"

definition div_pairs :: "soup \<Rightarrow> (string \<times> string) list" where
  "div_pairs sp = concat (map container_pair (kv_containers sp))"

definition harvested_pairs :: "soup \<Rightarrow> (string \<times> string) list" where
  "harvested_pairs sp = dl_pairs sp @ table_pairs sp @ div_pairs sp"

definition map_pairs :: "(string \<times> string) list \<Rightarrow> (string \<times> string) list \<Rightarrow> (string \<times> string) list" where
  "map_pairs table_data prs =
     foldl (\<lambda>td (label, val). map_table_value td label val key_mappings) table_data prs"

definition extract_from_tables :: "soup \<Rightarrow> (string \<times> string) list" where
  "extract_from_tables sp = map_pairs [] (harvested_pairs sp)"

subsection \<open>The extractors of \<^verbatim>\<open>extract_course_details\<close>\<close>

text \<open>A \<^verbatim>\<open>for\<close> loop whose body may \<^verbatim>\<open>return\<close>: the value returned by the first
  iteration that returns, \<open>None\<close> when the loop runs to its end.\<close>

fun first_some :: "('a \<Rightarrow> 'b option) \<Rightarrow> 'a list \<Rightarrow> 'b option" where
  "first_some f [] = None"
| "first_some f (x # xs) = (case f x of Some y \<Rightarrow> Some y | None \<Rightarrow> first_some f xs)"

text \<open>\<^verbatim>\<open>any(x in s.lower() for x in words)\<close>\<close>

definition mentions_any :: "string list \<Rightarrow> string \<Rightarrow> bool" where
  "mentions_any words s = list_ex (\<lambda>x. py_in x (py_lower s)) words"

subsubsection \<open>\<^verbatim>\<open>_smart_extract_name\<close>\<close>

definition name_selectors :: \<open>string list\<close> where
  \<open>name_selectors =
     [''h1.course-title'', ''h1.program-title'', ''.course-header h1'',
      ''.program-header h1'', ''[class*="course-name"]'', ''[class*="degree-title"]'',
      ''.hero-content h1'', ''.banner-content h1'', ''article h1'',
      ''.page-header h1'', ''main h1'', ''h1'']\<close>

definition generic_names :: "string list" where
  "generic_names = [''menu'', ''navigation'', ''search'', ''login'', ''home'']"

text \<open>The two nested tests on the text of a matched element.\<close>

definition name_filter :: "string \<Rightarrow> bool" where
  "name_filter name =
     (name \<noteq> [] \<and> 5 < length name \<and> length name < 200 \<and> \<not> mentions_any generic_names name)"

definition name_of_selector :: "soup \<Rightarrow> string \<Rightarrow> string option" where
  "name_of_selector sp selector =
     (case select_one sp selector of
        Some name \<Rightarrow> if name_filter name then Some name else None
      | None \<Rightarrow> None)"

definition name_from_url :: "py_runtime \<Rightarrow> string \<Rightarrow> string" where
  "name_from_url rt url =
     (let parts = filter (\<lambda>p. p \<noteq> [] \<and> 3 < length p) (py_split CHR ''/'' (urlparse_path rt url))
      in if parts \<noteq> [] then py_title (py_replace CHR ''-'' '' '' (last parts)) else [])"

definition smart_extract_name :: "py_runtime \<Rightarrow> soup \<Rightarrow> string \<Rightarrow> string" where
  "smart_extract_name rt sp url =
     (case first_some (name_of_selector sp) name_selectors of
        Some name \<Rightarrow> name
      | None \<Rightarrow>
          (case og_title sp of
             Some content \<Rightarrow> if content \<noteq> [] then content else name_from_url rt url
           | None \<Rightarrow> name_from_url rt url))"

subsubsection \<open>\<^verbatim>\<open>_smart_extract_description\<close>\<close>

definition description_selectors :: \<open>string list\<close> where
  \<open>description_selectors =
     [''.course-description'', ''.program-description'', ''.overview'',
      ''[class*="overview"]'', ''[class*="summary"]'', ''[class*="intro"]'',
      ''.lead'', ''.excerpt'', ''article > p'', ''.content > p'']\<close>

definition description_of_selector :: "soup \<Rightarrow> string \<Rightarrow> string option" where
  "description_of_selector sp selector =
     (case select_one sp selector of
        Some t \<Rightarrow> if 100 < length t then Some (take 500 t) else None
      | None \<Rightarrow> None)"

definition description_of_paragraph :: "string \<Rightarrow> string option" where
  "description_of_paragraph t =
     (if 100 < length t \<and> \<not> mentions_any [''cookie'', ''privacy'', ''javascript''] t
      then Some (take 500 t) else None)"

definition description_fallbacks :: "soup \<Rightarrow> string" where
  "description_fallbacks sp =
     (case first_some (description_of_selector sp) description_selectors of
        Some t \<Rightarrow> t
      | None \<Rightarrow>
          (case first_some description_of_paragraph (paragraphs sp) of
             Some t \<Rightarrow> t
           | None \<Rightarrow> []))"

definition smart_extract_description :: "soup \<Rightarrow> string" where
  "smart_extract_description sp =
     (case meta_description sp of
        Some content \<Rightarrow>
          if content \<noteq> [] \<and> 50 < length content then take 500 content
          else description_fallbacks sp
      | None \<Rightarrow> description_fallbacks sp)"

subsubsection \<open>\<^verbatim>\<open>_smart_extract_duration\<close>\<close>

definition duration_of_pattern :: "string \<Rightarrow> pattern \<Rightarrow> string option" where
  "duration_of_pattern text p =
     (case re_search p text of
        Some (g, _) \<Rightarrow> (let duration = py_strip g in if duration \<noteq> [] then Some duration else None)
      | None \<Rightarrow> None)"

definition duration_of_selector :: "soup \<Rightarrow> string \<Rightarrow> string option" where
  "duration_of_selector sp selector =
     (case select_one sp selector of
        Some t \<Rightarrow> if mentions_any [''year'', ''month'', ''semester''] t then Some t else None
      | None \<Rightarrow> None)"

definition smart_extract_duration :: \<open>soup \<Rightarrow> string \<Rightarrow> string\<close> where
  \<open>smart_extract_duration sp text =
     (case first_some (duration_of_pattern text) duration_patterns of
        Some duration \<Rightarrow> duration
      | None \<Rightarrow>
          (case first_some (duration_of_selector sp)
                  [''.duration'', ''[class*="duration"]'', ''[data-duration]''] of
             Some t \<Rightarrow> t
           | None \<Rightarrow> []))\<close>

subsubsection \<open>\<^verbatim>\<open>_smart_extract_fees\<close>\<close>

text \<open>The \<^verbatim>\<open>try\<close> block on a captured amount: the commas are removed, the rest is read as
  a number; an amount strictly between the bounds is formatted, any other amount and a
  \<^verbatim>\<open>ValueError\<close> give nothing and the loop goes on.\<close>

definition fee_gate :: "rat \<Rightarrow> rat \<Rightarrow> string \<Rightarrow> string option" where
  "fee_gate lo hi cap =
     (case py_float (py_replace CHR '','' [] cap) of
        Some fee_num \<Rightarrow> if lo < fee_num \<and> fee_num < hi then Some (fmt_fee fee_num) else None
      | None \<Rightarrow> None)"

definition fee_of_pattern :: "string \<Rightarrow> pattern \<Rightarrow> string option" where
  "fee_of_pattern text p =
     (case re_search p text of Some (g, _) \<Rightarrow> fee_gate 1000 200000 g | None \<Rightarrow> None)"

definition fee_patterns :: "string \<Rightarrow> pattern list" where
  "fee_patterns fee_type =
     (if fee_type = ''domestic'' then domestic_fee_patterns else international_fee_patterns)"

definition generic_fee :: "string \<Rightarrow> string" where
  "generic_fee text =
     (case first_some (fee_gate 5000 50000) (re_findall generic_fee_pattern text) of
        Some fee \<Rightarrow> fee
      | None \<Rightarrow> [])"

definition smart_extract_fees :: "soup \<Rightarrow> string \<Rightarrow> string \<Rightarrow> string" where
  "smart_extract_fees sp text fee_type =
     (case first_some (fee_of_pattern text) (fee_patterns fee_type) of
        Some fee \<Rightarrow> fee
      | None \<Rightarrow> if fee_type = ''domestic'' then generic_fee text else [])"

subsubsection \<open>\<^verbatim>\<open>_smart_extract_requirements\<close>\<close>

definition requirement_selectors :: \<open>string list\<close> where
  \<open>requirement_selectors =
     [''[class*="requirement"]'', ''[class*="eligibility"]'', ''[class*="entry"]'',
      ''[class*="admission"]'', ''[class*="prerequisite"]'']\<close>

definition requirements_of_selector :: "soup \<Rightarrow> string \<Rightarrow> string list" where
  "requirements_of_selector sp selector =
     map (take 200) (filter (\<lambda>t. 20 < length t \<and> length t < 500) (take 2 (select sp selector)))"

definition requirements_of_pattern :: "string \<Rightarrow> pattern \<Rightarrow> string list" where
  "requirements_of_pattern text p =
     (case re_search p text of Some (g, _) \<Rightarrow> [take 200 (py_strip g)] | None \<Rightarrow> [])"

definition smart_extract_requirements :: "soup \<Rightarrow> string \<Rightarrow> string" where
  "smart_extract_requirements sp text =
     (let requirements =
            concat (map (requirements_of_selector sp) requirement_selectors) @
            concat (map (requirements_of_pattern text) requirement_patterns)
      in if requirements \<noteq> [] then py_join '' | '' (take 2 requirements) else [])"

subsubsection \<open>\<^verbatim>\<open>_extract_atar\<close>\<close>

definition atar_gate :: "string \<Rightarrow> string option" where
  "atar_gate atar =
     (case py_float atar of
        Some atar_num \<Rightarrow>
          if 50 \<le> atar_num \<and> atar_num \<le> 9995 / 100 then Some (py_str_float atar_num) else None
      | None \<Rightarrow> None)"

definition atar_of_pattern :: "string \<Rightarrow> pattern \<Rightarrow> string option" where
  "atar_of_pattern text p =
     (case re_search p text of Some (g, _) \<Rightarrow> atar_gate g | None \<Rightarrow> None)"

definition extract_atar :: "string \<Rightarrow> string" where
  "extract_atar text =
     (case first_some (atar_of_pattern text) atar_patterns of Some atar \<Rightarrow> atar | None \<Rightarrow> [])"

subsubsection \<open>\<^verbatim>\<open>_smart_extract_study_mode\<close>\<close>

definition mode_keywords :: "(string \<times> string list) list" where
  "mode_keywords =
     [(''On-campus'', [''on-campus'', ''on campus'', ''face-to-face'', ''in person'']),
      (''Online'', [''online'', ''distance'', ''remote'']),
      (''Flexible'', [''flexible'', ''blended'', ''hybrid'']),
      (''Part-time'', [''part-time'', ''part time'']),
      (''Full-time'', [''full-time'', ''full time''])]"

definition smart_extract_study_mode :: "soup \<Rightarrow> string \<Rightarrow> string" where
  "smart_extract_study_mode sp text =
     (let text_lower = py_lower text;
          modes = map fst (filter (\<lambda>(mode, keywords). list_ex (\<lambda>kw. py_in kw text_lower) keywords)
                             mode_keywords)
      in if modes \<noteq> [] then py_join '', '' modes else [])"

subsubsection \<open>\<^verbatim>\<open>_extract_intake\<close>\<close>

definition extract_intake :: "py_runtime \<Rightarrow> string \<Rightarrow> string" where
  "extract_intake rt text =
     (let intakes = concat (map (\<lambda>p. take 3 (re_findall p text)) intake_patterns)
      in if intakes \<noteq> [] then py_join '', '' (set_iter rt intakes) else [])"

subsubsection \<open>\<^verbatim>\<open>_extract_campus\<close>\<close>

definition campuses :: "string list" where
  "campuses = [''Sydney'', ''Melbourne'', ''Brisbane'', ''Perth'', ''Canberra'',
               ''Adelaide'', ''Gold Coast'', ''Parramatta'', ''Kensington'',
               ''St Lucia'', ''Gatton'', ''Clayton'', ''Parkville'']"

definition extract_campus :: "soup \<Rightarrow> string \<Rightarrow> string" where
  "extract_campus sp text =
     (let found = filter (\<lambda>campus. py_in (py_lower campus) (py_lower text)) campuses
      in if found \<noteq> [] then py_join '', '' (take 3 found) else [])"

subsubsection \<open>\<^verbatim>\<open>_smart_extract_careers\<close>\<close>

definition career_selectors :: \<open>string list\<close> where
  \<open>career_selectors =
     [''[class*="career"] li'', ''[class*="outcome"] li'', ''[class*="employment"] li'',
      ''[class*="graduate"] li'', ''.careers li'', ''.opportunities li'']\<close>

fun careers_loop :: "soup \<Rightarrow> string list \<Rightarrow> string list \<Rightarrow> string list" where
  "careers_loop sp careers [] = careers"
| "careers_loop sp careers (selector # selectors) =
     (let careers' = careers @ filter (\<lambda>t. 5 < length t \<and> length t < 100)
                                  (take 10 (select sp selector))
      in if careers' \<noteq> [] then careers' else careers_loop sp careers' selectors)"

definition smart_extract_careers :: "soup \<Rightarrow> string list" where
  "smart_extract_careers sp = careers_loop sp [] career_selectors"

subsection \<open>\<^verbatim>\<open>extract_course_details\<close>\<close>

text \<open>A value of the returned dictionary is a string, or the list of strings of
  \<^verbatim>\<open>career_outcomes\<close>. The dictionary is the list of its items in the order of the
  source.\<close>

datatype py_value = PStr string | PList "string list"

definition extract_course_details :: "py_runtime \<Rightarrow> string \<Rightarrow> string \<Rightarrow> (string \<times> py_value) list" where
  "extract_course_details rt html url =
     (let sp = html_parser rt html;
          text = page_text sp
      in [(''url'', PStr url),
          (''name'', PStr (smart_extract_name rt sp url)),
          (''description'', PStr (smart_extract_description sp)),
          (''duration'', PStr (smart_extract_duration sp text)),
          (''fees_domestic'', PStr (smart_extract_fees sp text ''domestic'')),
          (''fees_international'', PStr (smart_extract_fees sp text ''international'')),
          (''entry_requirements'', PStr (smart_extract_requirements sp text)),
          (''atar'', PStr (extract_atar text)),
          (''study_mode'', PStr (smart_extract_study_mode sp text)),
          (''intake'', PStr (extract_intake rt text)),
          (''campus'', PStr (extract_campus sp text)),
          (''career_outcomes'', PList (smart_extract_careers sp))])"

subsection \<open>Example pages\<close>

text \<open>A document in which no query finds anything.\<close>

definition empty_soup :: soup where
  "empty_soup = \<lparr>page_text = [], select = (\<lambda>_. []), meta_description = None, og_title = None,
     paragraphs = [], ld_json = [], dls = [], tables = [], kv_containers = []\<rparr>"

declare re_search.simps [simp del] re_findall.simps [simp del]

text \<open>A page whose only heading is \<^verbatim>\<open><h1 class="course-title">Bachelor of Home
  Science</h1>\<close> and whose head has the \<^verbatim>\<open>og:title\<close> "Home Science at Example
  University".\<close>

definition home_soup :: soup where
  "home_soup = empty_soup
     \<lparr>page_text := ''Bachelor of Home Science'',
      select := (\<lambda>sel. if sel = ''h1.course-title'' \<or> sel = ''h1''
                        then [''Bachelor of Home Science''] else []),
      og_title := Some ''Home Science at Example University''\<rparr>"

text \<open>A page whose only heading is \<^verbatim>\<open><h1>Bachelor of Science</h1>\<close>.\<close>

definition plain_h1_soup :: soup where
  "plain_h1_soup = empty_soup
     \<lparr>page_text := ''Bachelor of Science'',
      select := (\<lambda>sel. if sel = ''h1'' then [''Bachelor of Science''] else [])\<rparr>"

text \<open>The plausibility filter of the name in the words of the specification: a length
  strictly between 5 and 200, and a text that is not, whatever its case, one of the
  placeholders.\<close>

definition spec_name_filter :: "string \<Rightarrow> bool" where
  "spec_name_filter name =
     (5 < length name \<and> length name < 200 \<and>
      py_lower name \<notin> set [''menu'', ''search'', ''home'', ''login''])"

text \<open>A page whose \<^verbatim>\<open>meta\<close> description is the letter a written 501 times, and one
  whose description is the letter b written 60 times.\<close>

definition long_meta_soup :: soup where
  "long_meta_soup = empty_soup \<lparr>meta_description := Some (replicate 501 CHR ''a'')\<rparr>"

definition short_meta_soup :: soup where
  "short_meta_soup = empty_soup \<lparr>meta_description := Some (replicate 60 CHR ''b'')\<rparr>"

text \<open>The text that \<^verbatim>\<open>_smart_extract_description\<close> selects, before it is cut: the
  conditions of the source, without the slice \<^verbatim>\<open>[:500]\<close> of its three \<^verbatim>\<open>return\<close>
  statements.\<close>

definition selected_fallback :: "soup \<Rightarrow> string option" where
  "selected_fallback sp =
     (case first_some (\<lambda>selector. case select_one sp selector of
                          Some t \<Rightarrow> if 100 < length t then Some t else None
                        | None \<Rightarrow> None) description_selectors of
        Some t \<Rightarrow> Some t
      | None \<Rightarrow>
          first_some (\<lambda>t. if 100 < length t \<and> \<not> mentions_any [''cookie'', ''privacy'', ''javascript''] t
                          then Some t else None) (paragraphs sp))"

definition selected_description :: "soup \<Rightarrow> string option" where
  "selected_description sp =
     (case meta_description sp of
        Some content \<Rightarrow>
          if content \<noteq> [] \<and> 50 < length content then Some content else selected_fallback sp
      | None \<Rightarrow> selected_fallback sp)"

text \<open>A harvested pair maps to the key \<open>k\<close> when its value has at least two characters and
  \<open>k\<close> is the key that \<^verbatim>\<open>_map_table_value\<close> finds for its label; \<open>values_for k\<close> lists
  the values of these pairs in the order of the harvest.\<close>

definition maps_to :: "string \<Rightarrow> string \<times> string \<Rightarrow> bool" where
  "maps_to k pr = (2 \<le> length (snd pr) \<and> matching_key key_mappings (fst pr) = Some k)"

definition values_for :: "string \<Rightarrow> (string \<times> string) list \<Rightarrow> string list" where
  "values_for k prs = map snd (filter (maps_to k) prs)"

text \<open>The value kept while a list of values is read: a later value replaces the one kept
  so far only if it is strictly longer.\<close>

fun keep_longest :: "string option \<Rightarrow> string list \<Rightarrow> string option" where
  "keep_longest cur [] = cur"
| "keep_longest cur (v # vs) =
     keep_longest (case cur of None \<Rightarrow> Some v
                   | Some old \<Rightarrow> if length old < length v then Some v else Some old) vs"

text \<open>A page with the definition list Duration / 3 years, Course length / 3 years
  full-time, Length / 4 yrs.\<close>

definition duration_dl_soup :: soup where
  "duration_dl_soup = empty_soup
     \<lparr>page_text := ''Duration 3 years Course length 3 years full-time Length 4 yrs'',
      dls := [([''Duration'', ''Course length'', ''Length''],
               [''3 years'', ''3 years full-time'', ''4 yrs''])]\<rparr>"

text \<open>A runtime in which every page parses to the empty document and every URL has the
  path \<^verbatim>\<open>/\<close>, as for the page \<^verbatim>\<open><html></html>\<close> at \<^verbatim>\<open>https://example.edu/\<close>.\<close>

definition empty_runtime :: py_runtime where
  "empty_runtime = \<lparr>html_parser = (\<lambda>_. empty_soup), urlparse_path = (\<lambda>_. ''/''), set_iter = remdups\<rparr>"

text \<open>A page with the JSON-LD block \<^verbatim>\<open>{"@type": "Course", "timeToComplete": "P3Y"}\<close> and
  the definition list Duration / 3 years full-time study, and a runtime that parses to
  it.\<close>

definition json_ld_soup :: soup where
  "json_ld_soup = empty_soup
     \<lparr>page_text := ''Duration 3 years full-time study'',
      ld_json := [Some (JObj [(''@type'', JStr ''Course''), (''timeToComplete'', JStr ''P3Y'')])],
      dls := [([''Duration''], [''3 years full-time study''])]\<rparr>"

definition json_ld_runtime :: py_runtime where
  "json_ld_runtime =
     \<lparr>html_parser = (\<lambda>_. json_ld_soup), urlparse_path = (\<lambda>_. ''/courses/science''),
      set_iter = remdups\<rparr>"

text \<open>A page whose text is \<^verbatim>\<open>Semester 1, 2025 Term 2, 2026\<close>, and the runtimes that parse
  to it, one for every iteration order of sets.\<close>

definition intake_soup :: soup where
  "intake_soup = empty_soup \<lparr>page_text := ''Semester 1, 2025 Term 2, 2026''\<rparr>"

definition intake_runtime :: "(string list \<Rightarrow> string list) \<Rightarrow> py_runtime" where
  "intake_runtime order =
     \<lparr>html_parser = (\<lambda>_. intake_soup), urlparse_path = (\<lambda>_. ''/courses/science''),
      set_iter = order\<rparr>"

section \<open>Properties of the extractors\<close>

subsection \<open>Evaluation and loop lemmas\<close>

lemmas num_defs = py_float_def is_digit_def digits_val_def digit_val_def py_str_float_def
  digit_char_def fmt_fee_def round_half_even_def py_replace_def

lemma g1: "atar_gate ''88.45'' = Some ''88.45''"
  by (simp add: atar_gate_def num_defs)

lemma g2: "atar_gate ''10'' = None"
  by (simp add: atar_gate_def num_defs)

lemma r1: "re_search atar_p1 ''ATAR: 88.45'' = Some (''88.45'', [])"
  by code_simp

lemma r2: "re_search atar_p1 ''ATAR: 101.2'' = Some (''10'', ''1.2'')"
  by code_simp

lemma r3: "re_search atar_p2 ''ATAR: 101.2'' = None"
  by code_simp

lemma r4: "re_search atar_p3 ''ATAR: 101.2'' = None"
  by code_simp

lemma a1: "extract_atar ''ATAR: 101.2'' = []"
  by (simp add: extract_atar_def atar_patterns_def atar_of_pattern_def r2 r3 r4 g2 del: re_search.simps)

lemma a2: "extract_atar ''ATAR: 88.45'' = ''88.45''"
  by (simp add: extract_atar_def atar_patterns_def atar_of_pattern_def r1 g1 del: re_search.simps)

lemma first_some_SomeD: "first_some f xs = Some y \<Longrightarrow> \<exists>x. x \<in> set xs \<and> f x = Some y"
  by (induction xs) (auto split: option.splits)

lemma first_some_append:
  "first_some f (xs @ ys) = (case first_some f xs of Some y \<Rightarrow> Some y | None \<Rightarrow> first_some f ys)"
  by (induction xs) (auto split: option.splits)

lemma first_some_None: "(\<And>x. x \<in> set xs \<Longrightarrow> f x = None) \<Longrightarrow> first_some f xs = None"
  by (induction xs) auto

lemma atar_gate_SomeD:
  "atar_gate g = Some r \<Longrightarrow> \<exists>v. py_float g = Some v \<and> 50 \<le> v \<and> v \<le> 9995 / 100 \<and> r = py_str_float v"
  by (auto simp: atar_gate_def split: option.splits if_splits)

lemma extract_atar_nonempty:
  assumes "extract_atar t \<noteq> []"
  shows "\<exists>p g rest v. p \<in> set atar_patterns \<and> re_search p t = Some (g, rest) \<and>
           py_float g = Some v \<and> 50 \<le> v \<and> v \<le> 9995 / 100 \<and> extract_atar t = py_str_float v"
proof -
  from assms obtain r where r: "first_some (atar_of_pattern t) atar_patterns = Some r"
    and e: "extract_atar t = r"
    by (auto simp: extract_atar_def split: option.splits)
  from first_some_SomeD [OF r] obtain p where p: "p \<in> set atar_patterns"
    and a: "atar_of_pattern t p = Some r" by blast
  from a obtain g rest where s: "re_search p t = Some (g, rest)" and gt: "atar_gate g = Some r"
    by (auto simp: atar_of_pattern_def split: option.splits)
  from atar_gate_SomeD [OF gt] obtain v where
    "py_float g = Some v" "50 \<le> v" "v \<le> 9995 / 100" "r = py_str_float v" by blast
  with p s e show ?thesis by blast
qed

lemma g3: "atar_gate ''75'' = Some ''75.0''"
  by (simp add: atar_gate_def num_defs)

lemma g4: "atar_gate ''50'' = Some ''50.0''"
  by (simp add: atar_gate_def num_defs)

lemma g7: "atar_gate ''750'' = None"
  by (simp add: atar_gate_def num_defs)

lemma g8: "atar_gate ''501.2'' = None"
  by (simp add: atar_gate_def num_defs)

lemma r5: "re_search atar_p1 ''ATAR: 750'' = Some (''75'', ''0'')"
  by code_simp

lemma r6: "re_search atar_p1 ''ATAR: 501.2'' = Some (''50'', ''1.2'')"
  by code_simp

lemma a3: "extract_atar ''ATAR: 750'' = ''75.0''"
  by (simp add: extract_atar_def atar_patterns_def atar_of_pattern_def r5 g3 del: re_search.simps)

lemma a4: "extract_atar ''ATAR: 501.2'' = ''50.0''"
  by (simp add: extract_atar_def atar_patterns_def atar_of_pattern_def r6 g4 del: re_search.simps)

text \<open>
  Claim C5. The gate \<^verbatim>\<open>50 <= atar_num <= 99.95\<close> is applied to what the pattern captured,
  and the patterns capture two digits (with at most two decimals) without asking that the
  number ends there. So the gate sees the first two digits of a longer number: the gate
  rejects the numbers 750 and 501.2, yet on the text \<^verbatim>\<open>ATAR: 750\<close> the field is
  \<^verbatim>\<open>75.0\<close> and on the text \<^verbatim>\<open>ATAR: 501.2\<close> it is \<^verbatim>\<open>50.0\<close>. The two texts of the claim behave
  as it says: \<^verbatim>\<open>ATAR: 101.2\<close> leaves the field empty (its first two digits read 10) and
  \<^verbatim>\<open>ATAR: 88.45\<close> gives \<^verbatim>\<open>88.45\<close>.
\<close>

theorem atar_gate_sees_two_digits:
  "atar_gate ''750'' = None \<and> extract_atar ''ATAR: 750'' = ''75.0'' \<and>
   atar_gate ''501.2'' = None \<and> extract_atar ''ATAR: 501.2'' = ''50.0'' \<and>
   extract_atar ''ATAR: 101.2'' = [] \<and>
   extract_atar ''ATAR: 88.45'' = ''88.45''"
  by (simp add: g7 g8 a1 a2 a3 a4)

subsection \<open>Fees\<close>

lemma fg1: "fee_gate 1000 200000 ''500'' = None"
  by (simp add: fee_gate_def num_defs)

lemma fg2: "fee_gate 1000 200000 ''12,500'' = Some ''$12,500''"
  by (simp add: fee_gate_def num_defs)

lemma fg3: "fee_gate 5000 50000 ''12,000'' = Some ''$12,000''"
  by (simp add: fee_gate_def num_defs)

lemma fg4: "fee_gate 1000 200000 ''9,000'' = Some ''$9,000''"
  by (simp add: fee_gate_def num_defs)

lemma fr1: "re_search domestic_fee_p1 ''domestic fee $500'' = Some (''500'', [])"
  by code_simp

lemma fr2: "re_search domestic_fee_p2 ''domestic fee $500'' = None"
  by code_simp

lemma fr3: "re_search domestic_fee_p3 ''domestic fee $500'' = None"
  by code_simp

lemma fr4: "re_findall generic_fee_pattern ''domestic fee $500'' = []"
  by code_simp

lemma fr5: "re_search domestic_fee_p1 ''domestic fee $12,500 per year'' = Some (''12,500'', '' per year'')"
  by code_simp

lemma fe1: "smart_extract_fees sp ''domestic fee $500'' ''domestic'' = []"
  by (simp add: smart_extract_fees_def fee_patterns_def domestic_fee_patterns_def
      fee_of_pattern_def generic_fee_def fr1 fr2 fr3 fr4 fg1 del: re_search.simps re_findall.simps)

lemma fe2: "smart_extract_fees sp ''domestic fee $12,500 per year'' ''domestic'' = ''$12,500''"
  by (simp add: smart_extract_fees_def fee_patterns_def domestic_fee_patterns_def
      fee_of_pattern_def fr5 fg2 del: re_search.simps)

lemma first_some_Some_ex:
  "x \<in> set xs \<Longrightarrow> f x = Some y \<Longrightarrow> \<exists>z. first_some f xs = Some z"
  by (induction xs) (auto split: option.splits)

lemma first_some_skip:
  "(\<And>x. x \<in> set pre \<Longrightarrow> f x = None) \<Longrightarrow> f p = Some r \<Longrightarrow>
   first_some f (pre @ p # post) = Some r"
  by (simp add: first_some_append first_some_None)

lemma fee_gate_SomeD:
  "fee_gate lo hi g = Some r \<Longrightarrow>
   \<exists>v. py_float (py_replace CHR '','' [] g) = Some v \<and> lo < v \<and> v < hi \<and> r = fmt_fee v"
  by (auto simp: fee_gate_def split: option.splits if_splits)

lemma fmt_fee_nonempty: "fmt_fee v \<noteq> []"
  by (simp add: fmt_fee_def)

lemma generic_fee_nonempty:
  assumes "generic_fee t \<noteq> []"
  shows "\<exists>g v. g \<in> set (re_findall generic_fee_pattern t) \<and>
           py_float (py_replace CHR '','' [] g) = Some v \<and> 5000 < v \<and> v < 50000 \<and>
           generic_fee t = fmt_fee v"
proof -
  from assms obtain r where
    r: "first_some (fee_gate 5000 50000) (re_findall generic_fee_pattern t) = Some r"
    and e: "generic_fee t = r"
    by (auto simp: generic_fee_def split: option.splits)
  from first_some_SomeD [OF r] obtain g where g: "g \<in> set (re_findall generic_fee_pattern t)"
    and a: "fee_gate 5000 50000 g = Some r" by blast
  from fee_gate_SomeD [OF a] g e show ?thesis by blast
qed

lemma smart_extract_fees_nonempty:
  assumes "smart_extract_fees sp t ft \<noteq> []"
  shows "\<exists>g v. ((\<exists>p rest. p \<in> set (fee_patterns ft) \<and> re_search p t = Some (g, rest)) \<or>
                 (ft = ''domestic'' \<and> g \<in> set (re_findall generic_fee_pattern t))) \<and>
           py_float (py_replace CHR '','' [] g) = Some v \<and> 1000 \<le> v \<and> v \<le> 200000 \<and>
           smart_extract_fees sp t ft = fmt_fee v"
proof (cases "first_some (fee_of_pattern t) (fee_patterns ft)")
  case (Some r)
  then have e: "smart_extract_fees sp t ft = r"
    by (simp add: smart_extract_fees_def)
  from first_some_SomeD [OF Some] obtain p where p: "p \<in> set (fee_patterns ft)"
    and a: "fee_of_pattern t p = Some r" by blast
  from a obtain g rest where s: "re_search p t = Some (g, rest)"
    and gt: "fee_gate 1000 200000 g = Some r"
    by (auto simp: fee_of_pattern_def split: option.splits)
  from fee_gate_SomeD [OF gt] obtain v where
    v: "py_float (py_replace CHR '','' [] g) = Some v" "1000 < v" "v < 200000" "r = fmt_fee v"
    by blast
  then have "1000 \<le> v" "v \<le> 200000" by simp_all
  with p s e v show ?thesis by blast
next
  case None
  with assms have d: "ft = ''domestic''" and e: "smart_extract_fees sp t ft = generic_fee t"
    by (auto simp: smart_extract_fees_def split: if_splits)
  from assms e have "generic_fee t \<noteq> []" by simp
  from generic_fee_nonempty [OF this] obtain g v where
    g: "g \<in> set (re_findall generic_fee_pattern t)"
    and v: "py_float (py_replace CHR '','' [] g) = Some v" "5000 < v" "v < 50000"
       "generic_fee t = fmt_fee v" by blast
  then have b: "1000 \<le> v" "v \<le> 200000" by simp_all
  from e v have r: "smart_extract_fees sp t ft = fmt_fee v" by simp
  show ?thesis
    by (rule exI [of _ g], rule exI [of _ v]) (simp add: d g v b r [unfolded d])
qed

text \<open>
  Claim C4. A fee reaches \<^verbatim>\<open>fees_domestic\<close> or \<^verbatim>\<open>fees_international\<close> only if its text
  was captured by a pattern of the fee type (or, for the domestic fee, by the fallback
  pattern) and, commas removed, reads as a number between 1000 and 200000; the field is
  that number formatted. On the text \<^verbatim>\<open>domestic fee $500\<close> the domestic fee stays empty,
  on the text \<^verbatim>\<open>domestic fee $12,500 per year\<close> it is \<^verbatim>\<open>$12,500\<close>.
\<close>

theorem fee_gate_range:
  "(\<forall>sp t ft. smart_extract_fees sp t ft \<noteq> [] \<longrightarrow>
      (\<exists>g v. ((\<exists>p rest. p \<in> set (fee_patterns ft) \<and> re_search p t = Some (g, rest)) \<or>
               (ft = ''domestic'' \<and> g \<in> set (re_findall generic_fee_pattern t))) \<and>
         py_float (py_replace CHR '','' [] g) = Some v \<and> 1000 \<le> v \<and> v \<le> 200000 \<and>
         smart_extract_fees sp t ft = fmt_fee v)) \<and>
   (\<forall>sp. smart_extract_fees sp ''domestic fee $500'' ''domestic'' = []) \<and>
   (\<forall>sp. smart_extract_fees sp ''domestic fee $12,500 per year'' ''domestic'' = ''$12,500'')"
proof (intro conjI allI impI)
  fix sp t ft assume "smart_extract_fees sp t ft \<noteq> []"
  then show "\<exists>g v. ((\<exists>p rest. p \<in> set (fee_patterns ft) \<and> re_search p t = Some (g, rest)) \<or>
               (ft = ''domestic'' \<and> g \<in> set (re_findall generic_fee_pattern t))) \<and>
         py_float (py_replace CHR '','' [] g) = Some v \<and> 1000 \<le> v \<and> v \<le> 200000 \<and>
         smart_extract_fees sp t ft = fmt_fee v"
    by (rule smart_extract_fees_nonempty)
next
  fix sp show "smart_extract_fees sp ''domestic fee $500'' ''domestic'' = []" by (rule fe1)
next
  fix sp show "smart_extract_fees sp ''domestic fee $12,500 per year'' ''domestic'' = ''$12,500''"
    by (rule fe2)
qed

text \<open>The theorem at the text \<^verbatim>\<open>domestic fee $12,500 per year\<close>.\<close>

theorem fee_gate_range_witness:
  "\<exists>g v. ((\<exists>p rest. p \<in> set (fee_patterns ''domestic'') \<and>
              re_search p ''domestic fee $12,500 per year'' = Some (g, rest)) \<or>
           (''domestic'' = ''domestic'' \<and>
              g \<in> set (re_findall generic_fee_pattern ''domestic fee $12,500 per year''))) \<and>
     py_float (py_replace CHR '','' [] g) = Some v \<and> 1000 \<le> v \<and> v \<le> 200000 \<and>
     ''$12,500'' = fmt_fee v"
proof -
  note t = fee_gate_range
  have e: "smart_extract_fees empty_soup ''domestic fee $12,500 per year'' ''domestic'' = ''$12,500''"
    by (rule t [THEN conjunct2, THEN conjunct2, THEN spec])
  have ne: "smart_extract_fees empty_soup ''domestic fee $12,500 per year'' ''domestic'' \<noteq> []"
    unfolding e by simp
  show ?thesis
    using t [THEN conjunct1, THEN spec, THEN spec, THEN spec, THEN mp, OF ne]
    unfolding e .
qed

subsection \<open>A failed gate does not end the loop\<close>

lemma c3r1: "re_search atar_p1 ''ATAR: 10 or 85.5 ATAR'' = Some (''10'', '' or 85.5 ATAR'')"
  by code_simp

lemma c3r2: "re_search atar_p2 ''ATAR: 10 or 85.5 ATAR'' = None"
  by code_simp

lemma c3r3: "re_search atar_p3 ''ATAR: 10 or 85.5 ATAR'' = Some (''85.5'', [])"
  by code_simp

lemma c3g: "atar_gate ''85.5'' = Some ''85.5''"
  by (simp add: atar_gate_def num_defs)

lemma c3f1: "re_search domestic_fee_p1 ''domestic fee $500; tuition $9,000 per year''
             = Some (''500'', ''; tuition $9,000 per year'')"
  by code_simp

lemma c3f2: "re_search domestic_fee_p2 ''domestic fee $500; tuition $9,000 per year'' = None"
  by code_simp

lemma c3f3: "re_search domestic_fee_p3 ''domestic fee $500; tuition $9,000 per year''
             = Some (''9,000'', [])"
  by code_simp

text \<open>
  Claim C3 says that a match whose value fails the gate ends the evaluation of the field:
  no later pattern is tried. On the text \<^verbatim>\<open>ATAR: 10 or 85.5 ATAR\<close> the first pattern
  captures \<^verbatim>\<open>10\<close>, which fails the gate, and the field is still filled, from the third
  pattern.
\<close>

theorem gate_failure_ends_evaluation_counterexample:
  "re_search atar_p1 ''ATAR: 10 or 85.5 ATAR'' = Some (''10'', '' or 85.5 ATAR'') \<and>
   atar_gate ''10'' = None \<and>
   extract_atar ''ATAR: 10 or 85.5 ATAR'' = ''85.5''"
  by (simp add: extract_atar_def atar_patterns_def atar_of_pattern_def c3r1 c3r2 c3r3 g2 c3g)

lemma extract_atar_falls_through:
  assumes "atar_patterns = pre @ q # mid @ p # post"
    and "re_search q t = Some (g, rest)" and "atar_gate g = None"
    and "\<forall>x \<in> set pre \<union> set mid. atar_of_pattern t x = None"
    and "re_search p t = Some (g', rest')" and "atar_gate g' = Some r"
  shows "extract_atar t = r"
proof -
  have q: "atar_of_pattern t q = None" using assms(2,3) by (simp add: atar_of_pattern_def)
  have p: "atar_of_pattern t p = Some r" using assms(5,6) by (simp add: atar_of_pattern_def)
  have "first_some (atar_of_pattern t) ((pre @ q # mid) @ p # post) = Some r"
    using assms(4) q p by (intro first_some_skip) auto
  then show ?thesis by (simp add: extract_atar_def assms(1))
qed

lemma smart_extract_fees_falls_through:
  assumes "fee_patterns ft = pre @ q # mid @ p # post"
    and "re_search q t = Some (g, rest)" and "fee_gate 1000 200000 g = None"
    and "\<forall>x \<in> set pre \<union> set mid. fee_of_pattern t x = None"
    and "re_search p t = Some (g', rest')" and "fee_gate 1000 200000 g' = Some r"
  shows "smart_extract_fees sp t ft = r"
proof -
  have q: "fee_of_pattern t q = None" using assms(2,3) by (simp add: fee_of_pattern_def)
  have p: "fee_of_pattern t p = Some r" using assms(5,6) by (simp add: fee_of_pattern_def)
  have "first_some (fee_of_pattern t) ((pre @ q # mid) @ p # post) = Some r"
    using assms(4) q p by (intro first_some_skip) auto
  then show ?thesis by (simp add: smart_extract_fees_def assms(1))
qed

text \<open>
  Claim C3, amended. A match whose value fails the gate is discarded and the loop goes
  on with the later patterns: when a pattern \<open>q\<close> of the list matches and its capture
  fails the gate, a later pattern \<open>p\<close> matches and its capture passes, and no pattern
  before \<open>p\<close> yields a value, then the field is the value of \<open>p\<close>. This holds for the
  admission rank and for the fee patterns of either fee type.
\<close>

theorem gate_failure_falls_through:
  "(atar_patterns = pre @ q # mid @ p # post \<and>
    re_search q t = Some (g, rest) \<and> atar_gate g = None \<and>
    (\<forall>x \<in> set pre \<union> set mid. atar_of_pattern t x = None) \<and>
    re_search p t = Some (g', rest') \<and> atar_gate g' = Some r
    \<longrightarrow> extract_atar t = r) \<and>
   (fee_patterns ft = fpre @ fq # fmid @ fp # fpost \<and>
    re_search fq t = Some (fg, frest) \<and> fee_gate 1000 200000 fg = None \<and>
    (\<forall>x \<in> set fpre \<union> set fmid. fee_of_pattern t x = None) \<and>
    re_search fp t = Some (fg', frest') \<and> fee_gate 1000 200000 fg' = Some fr
    \<longrightarrow> smart_extract_fees sp t ft = fr)"
proof (intro conjI impI)
  assume "atar_patterns = pre @ q # mid @ p # post \<and>
    re_search q t = Some (g, rest) \<and> atar_gate g = None \<and>
    (\<forall>x \<in> set pre \<union> set mid. atar_of_pattern t x = None) \<and>
    re_search p t = Some (g', rest') \<and> atar_gate g' = Some r"
  then show "extract_atar t = r"
    by (elim conjE) (rule extract_atar_falls_through)
next
  assume "fee_patterns ft = fpre @ fq # fmid @ fp # fpost \<and>
    re_search fq t = Some (fg, frest) \<and> fee_gate 1000 200000 fg = None \<and>
    (\<forall>x \<in> set fpre \<union> set fmid. fee_of_pattern t x = None) \<and>
    re_search fp t = Some (fg', frest') \<and> fee_gate 1000 200000 fg' = Some fr"
  then show "smart_extract_fees sp t ft = fr"
    by (elim conjE) (rule smart_extract_fees_falls_through)
qed

text \<open>The theorem at two texts: the rank of the third pattern after a failing first one,
  and the fee of the third domestic pattern after a failing first one.\<close>

theorem gate_failure_falls_through_witness:
  "extract_atar ''ATAR: 10 or 85.5 ATAR'' = ''85.5'' \<and>
   smart_extract_fees empty_soup ''domestic fee $500; tuition $9,000 per year'' ''domestic''
     = ''$9,000''"
proof
  have a: "atar_patterns = [] @ atar_p1 # [atar_p2] @ atar_p3 # []"
    by (simp add: atar_patterns_def)
  have m: "\<forall>x \<in> set [] \<union> set [atar_p2]. atar_of_pattern ''ATAR: 10 or 85.5 ATAR'' x = None"
    by (simp add: atar_of_pattern_def c3r2)
  show "extract_atar ''ATAR: 10 or 85.5 ATAR'' = ''85.5''"
    using gate_failure_falls_through [THEN conjunct1, THEN mp, OF conjI [OF a conjI [OF c3r1 conjI [OF g2 conjI [OF m conjI [OF c3r3 c3g]]]]]] .
next
  have a: "fee_patterns ''domestic'' = [] @ domestic_fee_p1 # [domestic_fee_p2] @ domestic_fee_p3 # []"
    by (simp add: fee_patterns_def domestic_fee_patterns_def)
  have m: "\<forall>x \<in> set [] \<union> set [domestic_fee_p2].
             fee_of_pattern ''domestic fee $500; tuition $9,000 per year'' x = None"
    by (simp add: fee_of_pattern_def c3f2)
  show "smart_extract_fees empty_soup ''domestic fee $500; tuition $9,000 per year'' ''domestic''
     = ''$9,000''"
    using gate_failure_falls_through [THEN conjunct2, THEN mp, OF conjI [OF a conjI [OF c3f1 conjI [OF fg1 conjI [OF m conjI [OF c3f3 fg4]]]]]] .
qed

subsection \<open>The name\<close>

lemma n1: "select_one home_soup ''h1.course-title'' = Some ''Bachelor of Home Science''"
  by (simp add: home_soup_def empty_soup_def select_one_def)

lemma n2: "spec_name_filter ''Bachelor of Home Science''"
  by code_simp

lemma n3: "first_some (name_of_selector home_soup) name_selectors = None"
  by code_simp

lemma n4: "smart_extract_name rt home_soup url = ''Home Science at Example University''"
  by (simp add: smart_extract_name_def n3) (simp add: home_soup_def empty_soup_def)

text \<open>
  Claim C6 says that the name is the text of the first matched element that passes the
  filter "length strictly between 5 and 200, not equal to a placeholder". The heading
  "Bachelor of Home Science" is matched by the first selector and passes that filter, yet
  the name is not this text: the code rejects every text that contains a placeholder
  word, here "home", and falls back to the \<^verbatim>\<open>og:title\<close>.
\<close>

theorem name_filter_equality_counterexample:
  "select_one home_soup ''h1.course-title'' = Some ''Bachelor of Home Science'' \<and>
   spec_name_filter ''Bachelor of Home Science'' \<and>
   (\<forall>rt url. smart_extract_name rt home_soup url = ''Home Science at Example University'')"
  using n1 n2 n4 by simp

lemma smart_extract_name_selector:
  assumes "name_selectors = pre @ s # post"
    and "\<forall>q \<in> set pre. select_one sp q = None \<or> (\<exists>t. select_one sp q = Some t \<and> \<not> name_filter t)"
    and "select_one sp s = Some name"
    and "name \<noteq> []" and "5 < length name" and "length name < 200"
    and "\<not> list_ex (\<lambda>x. py_in x (py_lower name)) [''menu'', ''navigation'', ''search'', ''login'', ''home'']"
  shows "smart_extract_name rt sp url = name"
proof -
  have f: "name_filter name"
    using assms(4-7) by (simp add: name_filter_def mentions_any_def generic_names_def)
  have p: "name_of_selector sp s = Some name"
    using assms(3) f by (simp add: name_of_selector_def)
  have q: "\<And>x. x \<in> set pre \<Longrightarrow> name_of_selector sp x = None"
    using assms(2) by (auto simp: name_of_selector_def)
  have "first_some (name_of_selector sp) (pre @ s # post) = Some name"
    using q p by (rule first_some_skip)
  then show ?thesis by (simp add: smart_extract_name_def assms(1))
qed

text \<open>
  Claim C6, amended. The selectors are tried in the listed order, and the name is the
  text of the first matched element that passes the filter of the code: a length
  strictly between 5 and 200 and a text that does not contain, whatever its case, one of
  the words menu, navigation, search, login, home. When the earlier selectors match
  nothing (or only texts that fail the filter) and a later selector matches a passing
  element, the name is the text of that element.
\<close>

theorem name_first_passing_selector:
  "name_selectors = pre @ s # post \<and>
   (\<forall>q \<in> set pre. select_one sp q = None \<or> (\<exists>t. select_one sp q = Some t \<and> \<not> name_filter t)) \<and>
   select_one sp s = Some name \<and>
   name \<noteq> [] \<and> 5 < length name \<and> length name < 200 \<and>
   \<not> list_ex (\<lambda>x. py_in x (py_lower name)) [''menu'', ''navigation'', ''search'', ''login'', ''home'']
   \<longrightarrow> smart_extract_name rt sp url = name"
proof
  assume "name_selectors = pre @ s # post \<and>
   (\<forall>q \<in> set pre. select_one sp q = None \<or> (\<exists>t. select_one sp q = Some t \<and> \<not> name_filter t)) \<and>
   select_one sp s = Some name \<and>
   name \<noteq> [] \<and> 5 < length name \<and> length name < 200 \<and>
   \<not> list_ex (\<lambda>x. py_in x (py_lower name)) [''menu'', ''navigation'', ''search'', ''login'', ''home'']"
  then show "smart_extract_name rt sp url = name"
    by (elim conjE) (rule smart_extract_name_selector)
qed

lemma w1: \<open>name_selectors =
    [''h1.course-title'', ''h1.program-title'', ''.course-header h1'',
      ''.program-header h1'', ''[class*="course-name"]'', ''[class*="degree-title"]'',
      ''.hero-content h1'', ''.banner-content h1'', ''article h1'',
      ''.page-header h1'', ''main h1''] @ ''h1'' # []\<close>
  by (simp add: name_selectors_def)

lemma w2: \<open>\<forall>q \<in> set [''h1.course-title'', ''h1.program-title'', ''.course-header h1'',
      ''.program-header h1'', ''[class*="course-name"]'', ''[class*="degree-title"]'',
      ''.hero-content h1'', ''.banner-content h1'', ''article h1'',
      ''.page-header h1'', ''main h1''].
    select_one plain_h1_soup q = None \<or> (\<exists>t. select_one plain_h1_soup q = Some t \<and> \<not> name_filter t)\<close>
  by (simp add: plain_h1_soup_def empty_soup_def select_one_def)

lemma w3: "select_one plain_h1_soup ''h1'' = Some ''Bachelor of Science''"
  by (simp add: plain_h1_soup_def empty_soup_def select_one_def)

lemma w4: "\<not> list_ex (\<lambda>x. py_in x (py_lower ''Bachelor of Science''))
             [''menu'', ''navigation'', ''search'', ''login'', ''home'']"
  by code_simp

text \<open>The theorem on a page where only the last selector, \<^verbatim>\<open>h1\<close>, matches.\<close>

theorem name_first_passing_selector_witness:
  "\<forall>rt url. smart_extract_name rt plain_h1_soup url = ''Bachelor of Science''"
proof (intro allI)
  fix rt url
  have l: "''Bachelor of Science'' \<noteq> [] \<and> 5 < length ''Bachelor of Science'' \<and>
           length ''Bachelor of Science'' < 200 \<and>
           \<not> list_ex (\<lambda>x. py_in x (py_lower ''Bachelor of Science''))
             [''menu'', ''navigation'', ''search'', ''login'', ''home'']"
    using w4 by simp
  show "smart_extract_name rt plain_h1_soup url = ''Bachelor of Science''"
    using name_first_passing_selector [THEN mp, OF conjI [OF w1 conjI [OF w2 conjI [OF w3 l]]]] .
qed

subsection \<open>The description\<close>

lemma first_some_map_option:
  "first_some (\<lambda>x. map_option h (f x)) xs = map_option h (first_some f xs)"
  by (induction xs) (auto split: option.splits)

lemma description_of_selector_eq:
  "description_of_selector sp = (\<lambda>selector. map_option (take 500)
     (case select_one sp selector of
        Some t \<Rightarrow> if 100 < length t then Some t else None
      | None \<Rightarrow> None))"
  by (auto simp: description_of_selector_def fun_eq_iff split: option.splits)

lemma description_of_paragraph_eq:
  "description_of_paragraph = (\<lambda>t. map_option (take 500)
     (if 100 < length t \<and> \<not> mentions_any [''cookie'', ''privacy'', ''javascript''] t
      then Some t else None))"
  by (auto simp: description_of_paragraph_def fun_eq_iff)

lemma description_fallbacks_eq:
  "description_fallbacks sp = (case selected_fallback sp of Some t \<Rightarrow> take 500 t | None \<Rightarrow> [])"
  unfolding description_fallbacks_def selected_fallback_def
    description_of_selector_eq description_of_paragraph_eq first_some_map_option
  by (auto split: option.splits)

lemma smart_extract_description_eq:
  "smart_extract_description sp =
     (case selected_description sp of Some t \<Rightarrow> take 500 t | None \<Rightarrow> [])"
  by (auto simp: smart_extract_description_def selected_description_def description_fallbacks_eq
      split: option.splits)

text \<open>
  Claim C8 says that a description longer than the maximum is stored truncated with an
  ellipsis marker appended. A \<^verbatim>\<open>meta\<close> description of 501 letters a is stored as 500 letters
  a: nothing is appended.
\<close>

theorem description_ellipsis_counterexample:
  "meta_description long_meta_soup = Some (replicate 501 CHR ''a'') \<and>
   smart_extract_description long_meta_soup = replicate 500 CHR ''a'' \<and>
   (\<forall>t. smart_extract_description long_meta_soup \<noteq> t @ ''...'')"
proof (intro conjI allI)
  show m: "meta_description long_meta_soup = Some (replicate 501 CHR ''a'')"
    by (simp add: long_meta_soup_def)
  show e: "smart_extract_description long_meta_soup = replicate 500 CHR ''a''"
    by (simp add: smart_extract_description_def m)
  fix t show "smart_extract_description long_meta_soup \<noteq> t @ ''...''"
  proof
    assume "smart_extract_description long_meta_soup = t @ ''...''"
    then have "last (replicate 500 CHR ''a'') = last (t @ ''...'')" by (simp add: e)
    then show False by simp
  qed
qed

text \<open>
  Claim C8, amended. A selected description of more than 500 characters is stored as its
  first 500 characters, with no marker appended; a selected description of at most 500
  characters is stored unchanged; when no text is selected the description is empty.
\<close>

theorem description_truncated:
  "(selected_description sp = Some t \<and> 500 < length t \<longrightarrow>
      smart_extract_description sp = take 500 t \<and> length (smart_extract_description sp) = 500) \<and>
   (selected_description sp = Some t \<and> length t \<le> 500 \<longrightarrow> smart_extract_description sp = t) \<and>
   (selected_description sp = None \<longrightarrow> smart_extract_description sp = [])"
  by (simp add: smart_extract_description_eq)

text \<open>The theorem on the two example pages.\<close>

theorem description_truncated_witness:
  "smart_extract_description long_meta_soup = take 500 (replicate 501 CHR ''a'') \<and>
   length (smart_extract_description long_meta_soup) = 500 \<and>
   smart_extract_description short_meta_soup = replicate 60 CHR ''b''"
proof -
  have s: "selected_description long_meta_soup = Some (replicate 501 CHR ''a'')"
    by (simp add: selected_description_def long_meta_soup_def)
  have l: "500 < length (replicate 501 CHR ''a'')" by simp
  have s': "selected_description short_meta_soup = Some (replicate 60 CHR ''b'')"
    by (simp add: selected_description_def short_meta_soup_def)
  have l': "length (replicate 60 CHR ''b'') \<le> 500" by simp
  note t = description_truncated
  show ?thesis
    using t [THEN conjunct1, THEN mp, OF conjI [OF s l]]
      t [THEN conjunct2, THEN conjunct1, THEN mp, OF conjI [OF s' l']]
    by simp
qed

subsection \<open>The table extractor\<close>

lemma map_of_map_table_value:
  "map_of (map_table_value td label val key_mappings) k =
     (if maps_to k (label, val)
      then (case map_of td k of None \<Rightarrow> Some val
            | Some old \<Rightarrow> if length old < length val then Some val else Some old)
      else map_of td k)"
  by (auto simp: map_table_value_def maps_to_def update_conv' split: option.splits)

lemma map_of_map_pairs:
  "map_of (map_pairs td prs) k = keep_longest (map_of td k) (values_for k prs)"
proof (induction prs arbitrary: td)
  case Nil
  show ?case by (simp add: map_pairs_def values_for_def)
next
  case (Cons pr prs)
  obtain label val where pr: "pr = (label, val)" by (cases pr)
  have "map_of (map_pairs td (pr # prs)) k
        = map_of (map_pairs (map_table_value td label val key_mappings) prs) k"
    by (simp add: map_pairs_def pr)
  also have "\<dots> = keep_longest (map_of (map_table_value td label val key_mappings) k)
                      (values_for k prs)"
    by (rule Cons.IH)
  also have "\<dots> = keep_longest (map_of td k) (values_for k (pr # prs))"
    by (simp add: map_of_map_table_value values_for_def pr)
  finally show ?case .
qed

lemma keep_longest_Some:
  "\<exists>pre post. c # vs = pre @ v # post \<and> keep_longest (Some c) vs = Some v \<and>
     (\<forall>w \<in> set pre. length w < length v) \<and> (\<forall>w \<in> set post. length w \<le> length v)"
  if "keep_longest (Some c) vs = Some v"
  using that
proof (induction vs arbitrary: c)
  case Nil
  then have "c = v" by simp
  then show ?case by (intro exI [of _ "[]"]) simp
next
  case (Cons x xs)
  show ?case
  proof (cases "length c < length x")
    case True
    with Cons.prems have k: "keep_longest (Some x) xs = Some v" by simp
    from Cons.IH [OF k] obtain pre post where d: "x # xs = pre @ v # post"
      and a: "\<forall>w \<in> set pre. length w < length v" and b: "\<forall>w \<in> set post. length w \<le> length v"
      by blast
    have xv: "length x \<le> length v"
    proof (cases pre)
      case Nil with d show ?thesis by simp
    next
      case (Cons y ys) with d a show ?thesis by auto
    qed
    have "c # x # xs = (c # pre) @ v # post" using d by simp
    moreover have "\<forall>w \<in> set (c # pre). length w < length v" using a True xv by auto
    ultimately show ?thesis using b Cons.prems by blast
  next
    case False
    with Cons.prems have k: "keep_longest (Some c) xs = Some v" by simp
    from Cons.IH [OF k] obtain pre post where d: "c # xs = pre @ v # post"
      and a: "\<forall>w \<in> set pre. length w < length v" and b: "\<forall>w \<in> set post. length w \<le> length v"
      by blast
    show ?thesis
    proof (cases pre)
      case Nil
      with d have "c = v" "xs = post" by simp_all
      then have "c # x # xs = [] @ v # (x # post)" by simp
      moreover have "\<forall>w \<in> set (x # post). length w \<le> length v"
        using b False \<open>c = v\<close> by auto
      ultimately show ?thesis using Cons.prems by (metis empty_iff empty_set)
    next
      case (Cons y ys)
      with d have y: "y = c" and xs: "xs = ys @ v # post" by simp_all
      have "c # x # xs = (c # x # ys) @ v # post" using xs by simp
      moreover have "\<forall>w \<in> set (c # x # ys). length w < length v"
        using a Cons y False by auto
      ultimately show ?thesis using b Cons.prems by blast
    qed
  qed
qed

lemma keep_longest_None: "keep_longest None vs = None \<longleftrightarrow> vs = []"
proof (cases vs)
  case Nil then show ?thesis by simp
next
  case (Cons x xs)
  have "keep_longest (Some c) ys \<noteq> None" for c ys
    by (induction ys arbitrary: c) auto
  with Cons show ?thesis by simp
qed

lemma map_of_extract_from_tables:
  "map_of (extract_from_tables sp) k = keep_longest None (values_for k (harvested_pairs sp))"
  by (simp add: extract_from_tables_def map_of_map_pairs)

text \<open>
  Claim C7. Among the label/value pairs harvested from the definition lists, the table
  rows and the containers, take those whose value has at least two characters and whose
  label maps to the key \<open>k\<close>. The table has no entry for \<open>k\<close> exactly when there is no such
  pair. Otherwise its entry \<open>v\<close> is one of their values, every earlier one is strictly
  shorter and every later one is at most as long: the longest value is kept, a later
  pair replaces an earlier one only if it is strictly longer, and the last pair does not
  win by being last.
\<close>

theorem table_keeps_longest:
  "(map_of (extract_from_tables sp) k = None \<longleftrightarrow> values_for k (harvested_pairs sp) = []) \<and>
   (map_of (extract_from_tables sp) k = Some v \<longrightarrow>
      (\<exists>pre post. values_for k (harvested_pairs sp) = pre @ v # post \<and>
         (\<forall>w \<in> set pre. length w < length v) \<and> (\<forall>w \<in> set post. length w \<le> length v)))"
proof (intro conjI impI)
  show "map_of (extract_from_tables sp) k = None \<longleftrightarrow> values_for k (harvested_pairs sp) = []"
    by (simp add: map_of_extract_from_tables keep_longest_None)
next
  assume a: "map_of (extract_from_tables sp) k = Some v"
  then have k: "keep_longest None (values_for k (harvested_pairs sp)) = Some v"
    by (simp add: map_of_extract_from_tables)
  show "\<exists>pre post. values_for k (harvested_pairs sp) = pre @ v # post \<and>
         (\<forall>w \<in> set pre. length w < length v) \<and> (\<forall>w \<in> set post. length w \<le> length v)"
  proof (cases "values_for k (harvested_pairs sp)")
    case Nil
    with k show ?thesis by simp
  next
    case (Cons x xs)
    with k have "keep_longest (Some x) xs = Some v" by simp
    from keep_longest_Some [OF this] Cons show ?thesis by auto
  qed
qed

lemma t1: "extract_from_tables duration_dl_soup = [(''duration'', ''3 years full-time'')]"
  by code_simp

lemma t2: "values_for ''duration'' (harvested_pairs duration_dl_soup)
           = [''3 years'', ''3 years full-time'', ''4 yrs'']"
  by code_simp

text \<open>The theorem on the example list: the second of three values is kept.\<close>

theorem table_keeps_longest_witness:
  "map_of (extract_from_tables duration_dl_soup) ''duration'' = Some ''3 years full-time'' \<and>
   values_for ''duration'' (harvested_pairs duration_dl_soup)
     = [''3 years'', ''3 years full-time'', ''4 yrs''] \<and>
   (\<exists>pre post. values_for ''duration'' (harvested_pairs duration_dl_soup)
                  = pre @ ''3 years full-time'' # post \<and>
      (\<forall>w \<in> set pre. length w < length ''3 years full-time'') \<and>
      (\<forall>w \<in> set post. length w \<le> length ''3 years full-time''))"
proof -
  have m: "map_of (extract_from_tables duration_dl_soup) ''duration'' = Some ''3 years full-time''"
    by (simp add: t1)
  show ?thesis
    using m t2 table_keeps_longest [THEN conjunct2, THEN mp, OF m] by (intro conjI)
qed

subsection \<open>The record\<close>

lemma e_name: "smart_extract_name empty_runtime empty_soup u = []"
  by code_simp

lemma e_careers: "smart_extract_careers empty_soup = []"
  by code_simp

lemma careers_loop_empty:
  "\<forall>sel \<in> set sels. list_all (\<lambda>t. \<not> (5 < length t \<and> length t < 100)) (take 10 (select sp sel))
   \<Longrightarrow> careers_loop sp [] sels = []"
proof (induction sels)
  case Nil
  show ?case by simp
next
  case (Cons sel sels)
  then have "filter (\<lambda>t. 5 < length t \<and> length t < 100) (take 10 (select sp sel)) = []"
    by (auto simp: filter_empty_conv list_all_iff)
  with Cons show ?case by simp
qed

lemma record_keys:
  "map fst (extract_course_details rt html url) =
     [''url'', ''name'', ''description'', ''duration'', ''fees_domestic'',
      ''fees_international'', ''entry_requirements'', ''atar'', ''study_mode'', ''intake'',
      ''campus'', ''career_outcomes'']"
  by (simp add: extract_course_details_def Let_def)

lemma record_careers:
  "map_of (extract_course_details rt html url) ''career_outcomes''
     = Some (PList (smart_extract_careers (html_parser rt html)))"
  by (simp add: extract_course_details_def Let_def)

lemma record_strings:
  "map_of (extract_course_details rt html url) k = Some v \<Longrightarrow> k \<noteq> ''career_outcomes''
   \<Longrightarrow> \<exists>s. v = PStr s"
  by (auto simp: extract_course_details_def Let_def split: if_splits)

lemma record_atar:
  "map_of (extract_course_details rt html url) ''atar''
     = Some (PStr (extract_atar (page_text (html_parser rt html))))"
  by (simp add: extract_course_details_def Let_def)

lemma extract_atar_no_match:
  "\<forall>p \<in> set atar_patterns. re_search p t = None \<Longrightarrow> extract_atar t = []"
proof -
  assume a: "\<forall>p \<in> set atar_patterns. re_search p t = None"
  have "first_some (atar_of_pattern t) atar_patterns = None"
    by (rule first_some_None) (simp add: atar_of_pattern_def a)
  then show ?thesis by (simp add: extract_atar_def)
qed

lemma e_rec_careers:
  "map_of (extract_course_details empty_runtime ''<html></html>'' ''https://example.edu/'')
     ''career_outcomes'' = Some (PList [])"
  by (simp add: record_careers empty_runtime_def e_careers)

lemma e_rec_name:
  "map_of (extract_course_details empty_runtime ''<html></html>'' ''https://example.edu/'')
     ''name'' = Some (PStr [])"
  by (simp add: extract_course_details_def Let_def) (simp add: empty_runtime_def e_name [unfolded empty_runtime_def])

lemma e_rec_missing:
  "map_of (extract_course_details rt html url) ''credential'' = None \<and>
   map_of (extract_course_details rt html url) ''provider'' = None"
  by (simp add: extract_course_details_def Let_def)

text \<open>
  Claim C2 says that the record holds every canonical field and that a field without a
  value carries an explicit absent marker, different from the empty string and from the
  empty list. On the empty page \<^verbatim>\<open>career_outcomes\<close> is the bare empty list and \<^verbatim>\<open>name\<close>
  the empty string, and the record has no field \<^verbatim>\<open>credential\<close> or \<^verbatim>\<open>provider\<close>.
\<close>

theorem absent_marker_counterexample:
  "map_of (extract_course_details empty_runtime ''<html></html>'' ''https://example.edu/'')
     ''career_outcomes'' = Some (PList []) \<and>
   map_of (extract_course_details empty_runtime ''<html></html>'' ''https://example.edu/'')
     ''name'' = Some (PStr []) \<and>
   map_of (extract_course_details empty_runtime ''<html></html>'' ''https://example.edu/'')
     ''credential'' = None \<and>
   map_of (extract_course_details empty_runtime ''<html></html>'' ''https://example.edu/'')
     ''provider'' = None"
  using e_rec_careers e_rec_name e_rec_missing by (intro conjI) simp_all

text \<open>
  Claim C2, amended. For every page the record has exactly the twelve keys \<^verbatim>\<open>url\<close>,
  \<^verbatim>\<open>name\<close>, \<^verbatim>\<open>description\<close>, \<^verbatim>\<open>duration\<close>, \<^verbatim>\<open>fees_domestic\<close>, \<^verbatim>\<open>fees_international\<close>,
  \<^verbatim>\<open>entry_requirements\<close>, \<^verbatim>\<open>atar\<close>, \<^verbatim>\<open>study_mode\<close>, \<^verbatim>\<open>intake\<close>, \<^verbatim>\<open>campus\<close>,
  \<^verbatim>\<open>career_outcomes\<close>; every value is a string, except \<^verbatim>\<open>career_outcomes\<close>, which is the
  list of \<^verbatim>\<open>_smart_extract_careers\<close>. Absence has no marker of its own: when no career
  selector yields an item of 6 to 99 characters \<^verbatim>\<open>career_outcomes\<close> is the empty list,
  and when no pattern of the admission rank matches \<^verbatim>\<open>atar\<close> is the empty string.
\<close>

theorem record_fields_and_absence:
  "map fst (extract_course_details rt html url) =
     [''url'', ''name'', ''description'', ''duration'', ''fees_domestic'',
      ''fees_international'', ''entry_requirements'', ''atar'', ''study_mode'', ''intake'',
      ''campus'', ''career_outcomes''] \<and>
   (\<forall>k v. map_of (extract_course_details rt html url) k = Some v \<and> k \<noteq> ''career_outcomes''
      \<longrightarrow> (\<exists>s. v = PStr s)) \<and>
   map_of (extract_course_details rt html url) ''career_outcomes''
     = Some (PList (smart_extract_careers (html_parser rt html))) \<and>
   ((\<forall>sel \<in> set career_selectors.
        list_all (\<lambda>t. \<not> (5 < length t \<and> length t < 100)) (take 10 (select (html_parser rt html) sel)))
      \<longrightarrow> map_of (extract_course_details rt html url) ''career_outcomes'' = Some (PList [])) \<and>
   ((\<forall>p \<in> set atar_patterns. re_search p (page_text (html_parser rt html)) = None)
      \<longrightarrow> map_of (extract_course_details rt html url) ''atar'' = Some (PStr []))"
proof (intro conjI allI impI)
  show "map fst (extract_course_details rt html url) =
     [''url'', ''name'', ''description'', ''duration'', ''fees_domestic'',
      ''fees_international'', ''entry_requirements'', ''atar'', ''study_mode'', ''intake'',
      ''campus'', ''career_outcomes'']"
    by (rule record_keys)
next
  fix k v
  assume "map_of (extract_course_details rt html url) k = Some v \<and> k \<noteq> ''career_outcomes''"
  then show "\<exists>s. v = PStr s" by (elim conjE) (rule record_strings)
next
  show "map_of (extract_course_details rt html url) ''career_outcomes''
     = Some (PList (smart_extract_careers (html_parser rt html)))"
    by (rule record_careers)
next
  assume "\<forall>sel \<in> set career_selectors.
        list_all (\<lambda>t. \<not> (5 < length t \<and> length t < 100)) (take 10 (select (html_parser rt html) sel))"
  then have "smart_extract_careers (html_parser rt html) = []"
    unfolding smart_extract_careers_def by (rule careers_loop_empty)
  then show "map_of (extract_course_details rt html url) ''career_outcomes'' = Some (PList [])"
    by (simp add: record_careers)
next
  assume "\<forall>p \<in> set atar_patterns. re_search p (page_text (html_parser rt html)) = None"
  then have "extract_atar (page_text (html_parser rt html)) = []"
    by (rule extract_atar_no_match)
  then show "map_of (extract_course_details rt html url) ''atar'' = Some (PStr [])"
    by (simp add: record_atar)
qed

lemma e_sel: "\<forall>sel \<in> set career_selectors.
        list_all (\<lambda>t. \<not> (5 < length t \<and> length t < 100))
          (take 10 (select (html_parser empty_runtime ''<html></html>'') sel))"
  by (simp add: empty_runtime_def empty_soup_def)

lemma e_atar: "\<forall>p \<in> set atar_patterns.
        re_search p (page_text (html_parser empty_runtime ''<html></html>'')) = None"
proof -
  have "re_search atar_p1 [] = None" "re_search atar_p2 [] = None" "re_search atar_p3 [] = None"
    by code_simp+
  then show ?thesis by (simp add: empty_runtime_def empty_soup_def atar_patterns_def)
qed

text \<open>The theorem on the empty page.\<close>

theorem record_fields_and_absence_witness:
  "map_of (extract_course_details empty_runtime ''<html></html>'' ''https://example.edu/'')
     ''career_outcomes'' = Some (PList []) \<and>
   map_of (extract_course_details empty_runtime ''<html></html>'' ''https://example.edu/'')
     ''atar'' = Some (PStr []) \<and>
   (\<exists>s. Some (PStr s) =
      map_of (extract_course_details empty_runtime ''<html></html>'' ''https://example.edu/'')
        ''url'')"
proof -
  note t = record_fields_and_absence [of empty_runtime "''<html></html>''" "''https://example.edu/''"]
  have c: "map_of (extract_course_details empty_runtime ''<html></html>'' ''https://example.edu/'')
     ''career_outcomes'' = Some (PList [])"
    by (rule t [THEN conjunct2, THEN conjunct2, THEN conjunct2, THEN conjunct1, THEN mp, OF e_sel])
  have a: "map_of (extract_course_details empty_runtime ''<html></html>'' ''https://example.edu/'')
     ''atar'' = Some (PStr [])"
    by (rule t [THEN conjunct2, THEN conjunct2, THEN conjunct2, THEN conjunct2, THEN mp, OF e_atar])
  have u: "map_of (extract_course_details empty_runtime ''<html></html>'' ''https://example.edu/'')
     ''url'' = Some (PStr ''https://example.edu/'') \<and> ''url'' \<noteq> ''career_outcomes''"
    by (simp add: extract_course_details_def Let_def)
  from t [THEN conjunct2, THEN conjunct1, THEN spec, THEN spec, THEN mp, OF u]
  have "\<exists>s. PStr ''https://example.edu/'' = PStr s" .
  then have "\<exists>s. Some (PStr s) =
      map_of (extract_course_details empty_runtime ''<html></html>'' ''https://example.edu/'') ''url''"
    using u by simp
  with c a show ?thesis by (intro conjI)
qed

subsection \<open>What the record does not depend on, and what it depends on\<close>

lemma j1: "extract_json_ld json_ld_soup = Inr [(''duration'', Raw (JStr ''P3Y''))]"
  by code_simp

lemma j2: "extract_from_tables json_ld_soup = [(''duration'', ''3 years full-time study'')]"
  by code_simp

lemma j3: "re_search duration_p1 ''Duration 3 years full-time study''
           = Some (''3 years full-time'', '' study'')"
  by code_simp

lemma j4: "py_strip ''3 years full-time'' = ''3 years full-time''"
  by code_simp

lemma j5: "smart_extract_duration sp ''Duration 3 years full-time study'' = ''3 years full-time''"
  by (simp add: smart_extract_duration_def duration_patterns_def duration_of_pattern_def j3 j4)

lemma record_duration:
  "map_of (extract_course_details rt html url) ''duration''
     = Some (PStr (smart_extract_duration (html_parser rt html) (page_text (html_parser rt html))))"
  by (simp add: extract_course_details_def Let_def)

text \<open>
  Claim C1 says that a field for which both the JSON-LD parser and the table extractor
  have a candidate takes the JSON-LD candidate. On the example page the JSON-LD candidate
  for the duration is \<^verbatim>\<open>P3Y\<close> and the table candidate is \<^verbatim>\<open>3 years full-time study\<close>;
  the record has neither: \<^verbatim>\<open>extract_course_details\<close> calls neither extractor, and its
  duration is what the first duration pattern captures in the page text.
\<close>

theorem structured_data_ignored:
  \<open>extract_json_ld json_ld_soup = Inr [(''duration'', Raw (JStr ''P3Y''))] \<and>
   extract_from_tables json_ld_soup = [(''duration'', ''3 years full-time study'')] \<and>
   map_of (extract_course_details json_ld_runtime
             ''<script type="application/ld+json">{"@type": "Course", "timeToComplete": "P3Y"}</script><dl><dt>Duration</dt><dd>3 years full-time study</dd></dl>''
             ''https://example.edu/courses/science'') ''duration''
     = Some (PStr ''3 years full-time'')\<close>
  by (simp add: j1 j2 record_duration) (simp add: json_ld_runtime_def json_ld_soup_def j5)

lemma i1: "re_findall intake_p1 ''Semester 1, 2025 Term 2, 2026'' = []"
  by code_simp

lemma i2: "re_findall intake_p2 ''Semester 1, 2025 Term 2, 2026'' = [''2025'', ''2026'']"
  by code_simp

lemma i3: "re_findall intake_p3 ''Semester 1, 2025 Term 2, 2026'' = []"
  by code_simp

lemma record_intake:
  "map_of (extract_course_details rt html url) ''intake''
     = Some (PStr (extract_intake rt (page_text (html_parser rt html))))"
  by (simp add: extract_course_details_def Let_def)

lemma i4: "extract_intake (intake_runtime order) ''Semester 1, 2025 Term 2, 2026''
           = py_join '', '' (order [''2025'', ''2026''])"
  by (simp add: extract_intake_def intake_patterns_def i1 i2 i3 intake_runtime_def)

text \<open>
  Claim C9 says that the record is a function of the page and its URL alone. The intake
  is joined from a Python \<^verbatim>\<open>set\<close>, whose iteration order the interpreter decides: for
  the same page and URL, two iteration orders of the set give two different records.
\<close>

theorem intake_order_depends_on_hash_seed:
  "map_of (extract_course_details (intake_runtime remdups)
             ''<p>Semester 1, 2025 Term 2, 2026</p>'' ''https://example.edu/courses/science'')
     ''intake'' = Some (PStr ''2025, 2026'') \<and>
   map_of (extract_course_details (intake_runtime (rev \<circ> remdups))
             ''<p>Semester 1, 2025 Term 2, 2026</p>'' ''https://example.edu/courses/science'')
     ''intake'' = Some (PStr ''2026, 2025'')"
proof -
  have p: "page_text (html_parser (intake_runtime order) h) = ''Semester 1, 2025 Term 2, 2026''"
    for order h
    by (simp add: intake_runtime_def intake_soup_def)
  show ?thesis
    by (simp add: record_intake p i4)
qed

subsection \<open>The fallback of the domestic fee\<close>

lemma fee_patterns_no_match:
  "\<forall>p \<in> set (fee_patterns ft). re_search p t = None \<Longrightarrow>
   first_some (fee_of_pattern t) (fee_patterns ft) = None"
  by (rule first_some_None) (simp add: fee_of_pattern_def)

lemma generic_fee_found:
  assumes "g \<in> set (re_findall generic_fee_pattern t)"
    and "py_float (py_replace CHR '','' [] g) = Some v" and "5000 < v" and "v < 50000"
  shows "\<exists>g' v'. g' \<in> set (re_findall generic_fee_pattern t) \<and>
           py_float (py_replace CHR '','' [] g') = Some v' \<and> 5000 < v' \<and> v' < 50000 \<and>
           generic_fee t = fmt_fee v'"
proof -
  have "fee_gate 5000 50000 g = Some (fmt_fee v)"
    using assms(2-4) by (simp add: fee_gate_def)
  from first_some_Some_ex [of g _ "fee_gate 5000 50000", OF assms(1) this] obtain z where
    z: "first_some (fee_gate 5000 50000) (re_findall generic_fee_pattern t) = Some z" by blast
  from first_some_SomeD [OF z] obtain g' where g': "g' \<in> set (re_findall generic_fee_pattern t)"
    and a: "fee_gate 5000 50000 g' = Some z" by blast
  from fee_gate_SomeD [OF a] obtain v' where
    "py_float (py_replace CHR '','' [] g') = Some v'" "5000 < v'" "v' < 50000" "z = fmt_fee v'"
    by blast
  moreover have "generic_fee t = z" using z by (simp add: generic_fee_def)
  ultimately show ?thesis using g' by blast
qed

text \<open>
  Claim C10. When none of the three domestic patterns matches the text and the fallback
  pattern \<^verbatim>\<open>\$([\d,]+)[\s]*(?:per[\s]*year|annually|p\.?a\.?)\<close> finds an amount that reads
  as a number strictly between 5000 and 50000, the domestic fee is not empty: it is the
  first such amount of the text, formatted. The international fee has no fallback: when
  none of its two patterns matches, it is empty.
\<close>

theorem domestic_generic_fallback:
  "((\<forall>p \<in> set domestic_fee_patterns. re_search p t = None) \<and>
    g \<in> set (re_findall generic_fee_pattern t) \<and>
    py_float (py_replace CHR '','' [] g) = Some v \<and> 5000 < v \<and> v < 50000
    \<longrightarrow> (\<exists>g' v'. g' \<in> set (re_findall generic_fee_pattern t) \<and>
           py_float (py_replace CHR '','' [] g') = Some v' \<and> 5000 < v' \<and> v' < 50000 \<and>
           smart_extract_fees sp t ''domestic'' = fmt_fee v' \<and>
           smart_extract_fees sp t ''domestic'' \<noteq> [])) \<and>
   ((\<forall>p \<in> set international_fee_patterns. re_search p t = None)
    \<longrightarrow> smart_extract_fees sp t ''international'' = [])"
proof (intro conjI impI)
  assume h: "(\<forall>p \<in> set domestic_fee_patterns. re_search p t = None) \<and>
    g \<in> set (re_findall generic_fee_pattern t) \<and>
    py_float (py_replace CHR '','' [] g) = Some v \<and> 5000 < v \<and> v < 50000"
  then have "\<forall>p \<in> set (fee_patterns ''domestic''). re_search p t = None"
    by (simp add: fee_patterns_def)
  then have n: "first_some (fee_of_pattern t) (fee_patterns ''domestic'') = None"
    by (rule fee_patterns_no_match)
  have e: "smart_extract_fees sp t ''domestic'' = generic_fee t"
    by (simp add: smart_extract_fees_def n)
  from h have "g \<in> set (re_findall generic_fee_pattern t)"
    "py_float (py_replace CHR '','' [] g) = Some v" "5000 < v" "v < 50000" by simp_all
  from generic_fee_found [OF this] obtain g' v' where
    r: "g' \<in> set (re_findall generic_fee_pattern t)"
       "py_float (py_replace CHR '','' [] g') = Some v'" "5000 < v'" "v' < 50000"
       "generic_fee t = fmt_fee v'" by blast
  have "smart_extract_fees sp t ''domestic'' \<noteq> []"
    by (simp add: e r(5) fmt_fee_nonempty)
  with r e show "\<exists>g' v'. g' \<in> set (re_findall generic_fee_pattern t) \<and>
           py_float (py_replace CHR '','' [] g') = Some v' \<and> 5000 < v' \<and> v' < 50000 \<and>
           smart_extract_fees sp t ''domestic'' = fmt_fee v' \<and>
           smart_extract_fees sp t ''domestic'' \<noteq> []"
    by auto
next
  assume "\<forall>p \<in> set international_fee_patterns. re_search p t = None"
  then have "\<forall>p \<in> set (fee_patterns ''international''). re_search p t = None"
    by (simp add: fee_patterns_def)
  then have "first_some (fee_of_pattern t) (fee_patterns ''international'') = None"
    by (rule fee_patterns_no_match)
  then show "smart_extract_fees sp t ''international'' = []"
    by (simp add: smart_extract_fees_def)
qed

lemma d1: "\<forall>p \<in> set domestic_fee_patterns. re_search p ''Only $12,000 per year'' = None"
proof -
  have "re_search domestic_fee_p1 ''Only $12,000 per year'' = None"
    "re_search domestic_fee_p2 ''Only $12,000 per year'' = None"
    "re_search domestic_fee_p3 ''Only $12,000 per year'' = None"
    by code_simp+
  then show ?thesis by (simp add: domestic_fee_patterns_def)
qed

lemma d2: "\<forall>p \<in> set international_fee_patterns. re_search p ''Only $12,000 per year'' = None"
proof -
  have "re_search international_fee_p1 ''Only $12,000 per year'' = None"
    "re_search international_fee_p2 ''Only $12,000 per year'' = None"
    by code_simp+
  then show ?thesis by (simp add: international_fee_patterns_def)
qed

lemma d3: "re_findall generic_fee_pattern ''Only $12,000 per year'' = [''12,000'']"
  by code_simp

lemma d4: "py_float (py_replace CHR '','' [] ''12,000'') = Some 12000"
  by (simp add: num_defs)

lemma d5: "fmt_fee 12000 = ''$12,000''"
  by (simp add: num_defs)

text \<open>The theorem at the text \<^verbatim>\<open>Only $12,000 per year\<close>.\<close>

theorem domestic_generic_fallback_witness:
  "smart_extract_fees empty_soup ''Only $12,000 per year'' ''domestic'' = ''$12,000'' \<and>
   smart_extract_fees empty_soup ''Only $12,000 per year'' ''international'' = []"
proof
  note t = domestic_generic_fallback [of "''Only $12,000 per year''" "''12,000''" 12000 empty_soup]
  have g: "''12,000'' \<in> set (re_findall generic_fee_pattern ''Only $12,000 per year'')"
    by (simp add: d3)
  have b: "(5000::rat) < 12000 \<and> (12000::rat) < 50000" by simp
  from t [THEN conjunct1, THEN mp, OF conjI [OF d1 conjI [OF g conjI [OF d4 b]]]]
  obtain g' v' where r: "g' \<in> set (re_findall generic_fee_pattern ''Only $12,000 per year'')"
    "py_float (py_replace CHR '','' [] g') = Some v'"
    "smart_extract_fees empty_soup ''Only $12,000 per year'' ''domestic'' = fmt_fee v'"
    by blast
  from r(1) have "g' = ''12,000''" by (simp add: d3)
  with r(2) have "v' = 12000" by (simp add: d4)
  with r(3) show "smart_extract_fees empty_soup ''Only $12,000 per year'' ''domestic'' = ''$12,000''"
    by (simp add: d5)
next
  show "smart_extract_fees empty_soup ''Only $12,000 per year'' ''international'' = []"
    by (rule domestic_generic_fallback [THEN conjunct2, THEN mp, OF d2])
qed

end
